theory Spec2Isabelle
  imports Main "HOL-Library.Word"
begin

section \<open>The OQS key-method adapter (crypto/ec/oqs_meth.c)\<close>

text \<open>
  A shallow embedding of \<^verbatim>\<open>crypto/ec/oqs_meth.c\<close>. Pointers are options
  (\<open>None\<close> is \<^verbatim>\<open>NULL\<close>), buffers are byte lists, and every function threads a
  \<open>world\<close> that holds what the C code does besides returning: the calls it makes to the
  allocator, to the error queue and to the signature engine, in order. A call to a
  collaborator that can fail takes its outcome from the world, so a statement about every
  world is a statement about every pattern of failures.
\<close>

subsection \<open>Data\<close>

type_synonym byte = "8 word"

text \<open>\<^verbatim>\<open>OQS_RAND\<close> is opaque to the adapter; it is only created and freed.\<close>

datatype OQS_RAND = OQS_RAND_alg_default

text \<open>
  \<^verbatim>\<open>OQS_SIG\<close> (declared in \<^verbatim>\<open>oqs/sig.h\<close>, which is not part of the sources):
  the fields the adapter reads. The lengths are unsigned in C and are kept as naturals.
\<close>

record OQS_SIG =
  rand :: "OQS_RAND option"
  priv_key_len :: nat
  pub_key_len :: nat
  max_sig_len :: nat
  estimated_classical_security :: nat

text \<open>\<^verbatim>\<open>OQS_KEY\<close>: the field \<^verbatim>\<open>s\<close> is named \<open>oqs_s\<close> here.\<close>

record OQS_KEY =
  oqs_s :: "OQS_SIG option"
  pubkey :: "byte list option"
  privkey :: "byte list option"

datatype oqs_key_type_t = KEY_TYPE_PUBLIC | KEY_TYPE_PRIVATE

text \<open>
  What the adapter uses of the host key object \<^verbatim>\<open>EVP_PKEY\<close>:
  \<^verbatim>\<open>pkey->ameth->pkey_id\<close> and \<^verbatim>\<open>pkey->pkey.ptr\<close>.
\<close>

record EVP_PKEY =
  pkey_id :: int
  ptr :: "OQS_KEY option"

text \<open>
  \<^verbatim>\<open>X509_ALGOR\<close> as \<^verbatim>\<open>X509_ALGOR_get0\<close> reads it: the identifier (as a NID) and the
  type tag of the parameters.
\<close>

record X509_ALGOR =
  algorithm :: int
  ptype :: int

text \<open>
  The public-key container: the algorithm identifier structure and the raw key bytes, each
  of which \<^verbatim>\<open>X509_PUBKEY_get0_param\<close> may hand back as \<^verbatim>\<open>NULL\<close>.
\<close>

record X509_PUBKEY =
  algor :: "X509_ALGOR option"
  public_key :: "byte list option"

text \<open>The private-key container: the algorithm identifier structure and the key bytes.\<close>

record PKCS8_PRIV_KEY_INFO =
  pkeyalg :: "X509_ALGOR option"
  pkey_octets :: "byte list"


text \<open>
  Constants and tables of headers that are not part of the sources
  (\<^verbatim>\<open>openssl/obj_mac.h\<close>, \<^verbatim>\<open>openssl/asn1.h\<close>, \<^verbatim>\<open>oqs/sig.h\<close>) are parameters:
  the two names of the one wired algorithm, the "absent" parameter tag, the two control
  requests, the "no digest" identifier and the flag that \<^verbatim>\<open>oqs_sig_info_set\<close> stores,
  the long name of an identifier, and the engine \<^verbatim>\<open>OQS_SIG_new\<close> builds for a selector
  (\<open>None\<close> when it rejects the selector).
\<close>

record host =
  NID_picnicL1FS :: int
  OQS_SIG_picnic_L1_FS :: int
  V_ASN1_UNDEF :: int
  EVP_PKEY_CTRL_MD :: int
  EVP_PKEY_CTRL_DIGESTINIT :: int
  NID_undef :: int
  X509_SIG_INFO_TLS :: int
  OBJ_nid2ln :: "int \<Rightarrow> string"
  sig_alg :: "int \<Rightarrow> OQS_SIG option"

subsection \<open>The world: collaborator outcomes and the trace of calls\<close>

datatype err_reason = ERR_R_MALLOC_FAILURE | ERR_R_FATAL

datatype event =
    Ev_OQSerr int err_reason
  | Ev_OPENSSL_malloc nat
  | Ev_OPENSSL_secure_malloc nat
  | Ev_OPENSSL_free "byte list"
  | Ev_OPENSSL_free_key OQS_KEY
  | Ev_OPENSSL_secure_clear_free "byte list" nat
  | Ev_OPENSSL_clear_free "byte list" nat
  | Ev_OQS_RAND_free OQS_RAND
  | Ev_OQS_SIG_free OQS_SIG
  | Ev_ASN1_OCTET_STRING_free
  | Ev_OQS_SIG_keygen
  | Ev_OQS_SIG_sign
  | Ev_OQS_SIG_verify
  | Ev_EVP_DigestVerifyInit
  | Ev_BIO_printf string
  | Ev_ASN1_buf_print "byte list" nat

text \<open>
  \<open>outcomes\<close>: the results of the fallible collaborator calls still to come, in call order
  (\<open>True\<close>: the call succeeds; past the end of the list every call succeeds).
  \<open>junk\<close>: the indeterminate contents of freshly allocated memory.
  \<open>engine_out\<close>: the bytes the engine writes next (a key pair, or a signature).
  \<open>trace\<close>: the calls made so far, oldest first.
\<close>

record world =
  outcomes :: "bool list"
  junk :: "nat \<Rightarrow> byte"
  engine_out :: "byte list \<times> byte list"
  trace :: "event list"

definition attempt :: "world \<Rightarrow> bool \<times> world" where
  "attempt w =
     (case outcomes w of
        [] \<Rightarrow> (True, w)
      | ok # rest \<Rightarrow> (ok, w\<lparr>outcomes := rest\<rparr>))"

definition emit :: "event \<Rightarrow> world \<Rightarrow> world" where
  "emit e w = w\<lparr>trace := trace w @ [e]\<rparr>"

text \<open>
  Modelled from the spec: the host error-reporting facility (category and reason code,
  section 7). \<^verbatim>\<open>OQSerr(f, r)\<close> puts one entry on the host error queue.
\<close>

definition OQSerr :: "int \<Rightarrow> err_reason \<Rightarrow> world \<Rightarrow> world" where
  "OQSerr f r w = emit (Ev_OQSerr f r) w"

definition is_OQSerr :: "event \<Rightarrow> bool" where
  "is_OQSerr e = (case e of Ev_OQSerr f r \<Rightarrow> True | _ \<Rightarrow> False)"

definition err_count :: "world \<Rightarrow> nat" where
  "err_count w = length (filter is_OQSerr (trace w))"

subsection \<open>Collaborators: allocator and engine\<close>

text \<open>
  Modelled from the spec: the allocator of the host library (security-sensitive allocate
  and zero-and-free primitives, section 6). An allocation either fails (\<^verbatim>\<open>NULL\<close>) or
  yields a block of the requested size with indeterminate contents; a request for zero
  bytes yields \<^verbatim>\<open>NULL\<close>. \<^verbatim>\<open>OPENSSL_zalloc(sizeof(OQS_KEY))\<close> yields a record with all
  three pointers \<^verbatim>\<open>NULL\<close>.
\<close>

definition OPENSSL_zalloc_OQS_KEY :: "world \<Rightarrow> OQS_KEY option \<times> world" where
  "OPENSSL_zalloc_OQS_KEY w =
     (let (ok, w') = attempt w
      in (if ok then Some \<lparr>oqs_s = None, pubkey = None, privkey = None\<rparr> else None, w'))"

definition OPENSSL_malloc :: "nat \<Rightarrow> world \<Rightarrow> byte list option \<times> world" where
  "OPENSSL_malloc num w =
     (if num = 0 then (None, w)
      else let (ok, w') = attempt w
           in if ok then (Some (map (junk w) [0..<num]), emit (Ev_OPENSSL_malloc num) w')
              else (None, w'))"

definition OPENSSL_secure_malloc :: "nat \<Rightarrow> world \<Rightarrow> byte list option \<times> world" where
  "OPENSSL_secure_malloc num w =
     (if num = 0 then (None, w)
      else let (ok, w') = attempt w
           in if ok then (Some (map (junk w) [0..<num]), emit (Ev_OPENSSL_secure_malloc num) w')
              else (None, w'))"

definition OPENSSL_memdup :: "byte list \<Rightarrow> nat \<Rightarrow> world \<Rightarrow> byte list option \<times> world" where
  "OPENSSL_memdup src num w =
     (case OPENSSL_malloc num w of
        (None, w') \<Rightarrow> (None, w')
      | (Some b, w') \<Rightarrow> (Some (take num src @ drop num b), w'))"

definition OPENSSL_free :: "byte list \<Rightarrow> world \<Rightarrow> world" where
  "OPENSSL_free b w = emit (Ev_OPENSSL_free b) w"

definition OPENSSL_free_key :: "OQS_KEY \<Rightarrow> world \<Rightarrow> world" where
  "OPENSSL_free_key k w = emit (Ev_OPENSSL_free_key k) w"

definition OPENSSL_secure_clear_free :: "byte list \<Rightarrow> nat \<Rightarrow> world \<Rightarrow> world" where
  "OPENSSL_secure_clear_free b num w = emit (Ev_OPENSSL_secure_clear_free b num) w"

definition OPENSSL_clear_free :: "byte list \<Rightarrow> nat \<Rightarrow> world \<Rightarrow> world" where
  "OPENSSL_clear_free b num w = emit (Ev_OPENSSL_clear_free b num) w"

text \<open>\<^verbatim>\<open>memcpy(dst, src, n)\<close>, for \<open>n\<close> within both buffers.\<close>

definition memcpy :: "byte list \<Rightarrow> byte list \<Rightarrow> nat \<Rightarrow> byte list" where
  "memcpy dst src n = take n src @ drop n dst"

text \<open>
  The engine library. \<^verbatim>\<open>OQS_RAND_new\<close> may fail. \<^verbatim>\<open>OQS_SIG_new(rand, alg)\<close> yields
  \<^verbatim>\<open>NULL\<close> for a selector the library rejects or when it cannot allocate, and otherwise
  the engine of that selector, bound to \<open>rand\<close>.
\<close>

definition OQS_RAND_new :: "world \<Rightarrow> OQS_RAND option \<times> world" where
  "OQS_RAND_new w =
     (let (ok, w') = attempt w in (if ok then Some OQS_RAND_alg_default else None, w'))"

definition OQS_SIG_new :: "host \<Rightarrow> OQS_RAND \<Rightarrow> int \<Rightarrow> world \<Rightarrow> OQS_SIG option \<times> world" where
  "OQS_SIG_new L r alg w =
     (case sig_alg L alg of
        None \<Rightarrow> (None, w)
      | Some e \<Rightarrow>
          let (ok, w') = attempt w
          in (if ok then Some (e\<lparr>rand := Some r\<rparr>) else None, w'))"

definition OQS_RAND_free :: "OQS_RAND \<Rightarrow> world \<Rightarrow> world" where
  "OQS_RAND_free r w = emit (Ev_OQS_RAND_free r) w"

definition OQS_SIG_free :: "OQS_SIG \<Rightarrow> world \<Rightarrow> world" where
  "OQS_SIG_free e w = emit (Ev_OQS_SIG_free e) w"

subsection \<open>Algorithm selection\<close>

definition get_oqs_alg_id :: "host \<Rightarrow> int \<Rightarrow> int" where
  "get_oqs_alg_id L openssl_nid =
     (if openssl_nid = NID_picnicL1FS L then OQS_SIG_picnic_L1_FS L else - 1)"


subsection \<open>Teardown and allocation of a key record\<close>

text \<open>
  \<^verbatim>\<open>oqs_pkey_ctx_free\<close>. The private-key length is read from the engine before the
  engine is freed; it stays 0 when the record has no engine.
\<close>

definition oqs_pkey_ctx_free :: "OQS_KEY option \<Rightarrow> world \<Rightarrow> world" where
  "oqs_pkey_ctx_free key w =
     (case key of
        None \<Rightarrow> w
      | Some k \<Rightarrow>
          let (privkey_len, w1) =
                (case oqs_s k of
                   None \<Rightarrow> (0, w)
                 | Some e \<Rightarrow>
                     (priv_key_len e,
                      OQS_SIG_free e
                        (case rand e of None \<Rightarrow> w | Some r \<Rightarrow> OQS_RAND_free r w)));
              w2 = (case privkey k of
                      None \<Rightarrow> w1
                    | Some b \<Rightarrow> OPENSSL_secure_clear_free b privkey_len w1);
              w3 = (case pubkey k of None \<Rightarrow> w2 | Some b \<Rightarrow> OPENSSL_free b w2)
          in OPENSSL_free_key k w3)"

text \<open>
  \<^verbatim>\<open>oqs_key_init\<close>. The result \<open>Some k\<close> is the return value 1 with \<open>k\<close> stored through
  \<^verbatim>\<open>p_oqs_key\<close>; \<open>None\<close> is the return value 0, with \<^verbatim>\<open>*p_oqs_key\<close> left as it was
  (every caller initialises it to \<^verbatim>\<open>NULL\<close>).
\<close>

definition oqs_key_init :: "host \<Rightarrow> int \<Rightarrow> oqs_key_type_t \<Rightarrow> world \<Rightarrow> OQS_KEY option \<times> world" where
  "oqs_key_init L nid keytype w =
     (let oqs_alg_id = get_oqs_alg_id L nid in
      case OPENSSL_zalloc_OQS_KEY w of
        (None, w1) \<Rightarrow> (None, oqs_pkey_ctx_free None (OQSerr 0 ERR_R_MALLOC_FAILURE w1))
      | (Some k0, w1) \<Rightarrow>
          (case OQS_RAND_new w1 of
             (None, w2) \<Rightarrow> (None, oqs_pkey_ctx_free (Some k0) (OQSerr 0 ERR_R_FATAL w2))
           | (Some oqs_rand, w2) \<Rightarrow>
               (case OQS_SIG_new L oqs_rand oqs_alg_id w2 of
                  (None, w3) \<Rightarrow> (None, oqs_pkey_ctx_free (Some k0) (OQSerr 0 ERR_R_FATAL w3))
                | (Some e, w3) \<Rightarrow>
                    let k1 = k0\<lparr>oqs_s := Some e\<rparr> in
                    (case OPENSSL_malloc (pub_key_len e) w3 of
                       (None, w4) \<Rightarrow>
                         (None, oqs_pkey_ctx_free (Some k1) (OQSerr 0 ERR_R_MALLOC_FAILURE w4))
                     | (Some pub, w4) \<Rightarrow>
                         let k2 = k1\<lparr>pubkey := Some pub\<rparr> in
                         if keytype = KEY_TYPE_PRIVATE then
                           (case OPENSSL_secure_malloc (priv_key_len e) w4 of
                              (None, w5) \<Rightarrow>
                                (None,
                                 oqs_pkey_ctx_free (Some k2) (OQSerr 0 ERR_R_MALLOC_FAILURE w5))
                            | (Some priv, w5) \<Rightarrow> (Some (k2\<lparr>privkey := Some priv\<rparr>), w5))
                         else (Some k2, w4)))))"

subsection \<open>Collaborators: containers and the octet-string codec\<close>

text \<open>
  Modelled from the spec: the generic public-key container accessors (extract or store:
  algorithm id, parameter tag, raw byte span; section 6). \<^verbatim>\<open>X509_PUBKEY_get0_param\<close>
  hands back the key bytes, their length and the algorithm identifier structure;
  \<^verbatim>\<open>X509_PUBKEY_set0_param\<close> stores identifier, parameter tag and the first
  \<open>penclen\<close> bytes of \<open>penc\<close>. Either may report failure.
\<close>

definition X509_PUBKEY_get0_param ::
  "X509_PUBKEY \<Rightarrow> world \<Rightarrow> (byte list option \<times> nat \<times> X509_ALGOR option) option \<times> world" where
  "X509_PUBKEY_get0_param pk w =
     (let (ok, w') = attempt w
      in (if ok
          then Some (public_key pk,
                     (case public_key pk of None \<Rightarrow> 0 | Some d \<Rightarrow> length d),
                     algor pk)
          else None, w'))"

definition X509_PUBKEY_set0_param ::
  "X509_PUBKEY \<Rightarrow> int \<Rightarrow> int \<Rightarrow> byte list \<Rightarrow> nat \<Rightarrow> world \<Rightarrow> X509_PUBKEY option \<times> world" where
  "X509_PUBKEY_set0_param pk aobj pt penc penclen w =
     (let (ok, w') = attempt w
      in (if ok
          then Some (pk\<lparr>algor := Some \<lparr>algorithm = aobj, ptype = pt\<rparr>,
                        public_key := Some (take penclen penc)\<rparr>)
          else None, w'))"

text \<open>
  Modelled from the spec: the generic private-key container accessors (extract or store:
  algorithm id, parameter tag, raw byte span; section 6).
\<close>

definition PKCS8_pkey_get0 ::
  "PKCS8_PRIV_KEY_INFO \<Rightarrow> world \<Rightarrow> (byte list \<times> nat \<times> X509_ALGOR option) option \<times> world" where
  "PKCS8_pkey_get0 p8 w =
     (let (ok, w') = attempt w
      in (if ok then Some (pkey_octets p8, length (pkey_octets p8), pkeyalg p8) else None, w'))"

definition PKCS8_pkey_set0 ::
  "PKCS8_PRIV_KEY_INFO \<Rightarrow> int \<Rightarrow> int \<Rightarrow> byte list \<Rightarrow> nat \<Rightarrow> world
     \<Rightarrow> PKCS8_PRIV_KEY_INFO option \<times> world" where
  "PKCS8_pkey_set0 p8 aobj pt penc penclen w =
     (let (ok, w') = attempt w
      in (if ok
          then Some (p8\<lparr>pkeyalg := Some \<lparr>algorithm = aobj, ptype = pt\<rparr>,
                        pkey_octets := take penclen penc\<rparr>)
          else None, w'))"

text \<open>
  Modelled from the spec: the octet-string codec (a length-prefixed byte string codec,
  section 6), as the definite-length encoding: the tag byte 4, the length (one byte below
  128, otherwise \<open>128 + k\<close> followed by the \<open>k\<close> big-endian bytes of the length), then
  the contents. Decoding reads one such string from the front of its input and ignores
  what follows it.
\<close>

fun nat_be :: "nat \<Rightarrow> byte list" where
  "nat_be n = (if n = 0 then [] else nat_be (n div 256) @ [of_nat (n mod 256)])"

declare nat_be.simps [simp del]

definition be_nat :: "byte list \<Rightarrow> nat" where
  "be_nat bs = foldl (\<lambda>a b. a * 256 + unat b) 0 bs"

definition der_length :: "nat \<Rightarrow> byte list" where
  "der_length n =
     (if n < 128 then [of_nat n]
      else of_nat (128 + length (nat_be n)) # nat_be n)"

definition der_octet_string :: "byte list \<Rightarrow> byte list" where
  "der_octet_string d = 4 # der_length (length d) @ d"

definition der_parse_octet_string :: "byte list \<Rightarrow> byte list option" where
  "der_parse_octet_string bs =
     (case bs of
        t # l # rest \<Rightarrow>
          if t \<noteq> 4 then None
          else if unat l < 128 then
            (if unat l \<le> length rest then Some (take (unat l) rest) else None)
          else
            (let k = unat l - 128 in
             if k = 0 \<or> 126 < k \<or> length rest < k then None
             else let n = be_nat (take k rest); body = drop k rest in
                  if n \<le> length body then Some (take n body) else None)
      | _ \<Rightarrow> None)"

text \<open>
  \<^verbatim>\<open>i2d_ASN1_OCTET_STRING(&oct, &penc)\<close> with \<^verbatim>\<open>oct.data = data\<close> and
  \<^verbatim>\<open>oct.length = len\<close>: \<open>None\<close> is a negative return value, \<open>Some penc\<close> the
  encoding, whose length is the return value.
  \<^verbatim>\<open>d2i_ASN1_OCTET_STRING(NULL, &p, plen)\<close>: \<open>None\<close> is \<^verbatim>\<open>NULL\<close>.
\<close>

definition i2d_ASN1_OCTET_STRING :: "byte list \<Rightarrow> nat \<Rightarrow> world \<Rightarrow> byte list option \<times> world" where
  "i2d_ASN1_OCTET_STRING data len w =
     (let (ok, w') = attempt w
      in (if ok then Some (der_octet_string (take len data)) else None, w'))"

definition d2i_ASN1_OCTET_STRING :: "byte list \<Rightarrow> nat \<Rightarrow> world \<Rightarrow> byte list option \<times> world" where
  "d2i_ASN1_OCTET_STRING p plen w =
     (let (ok, w') = attempt w
      in (if ok then der_parse_octet_string (take plen p) else None, w'))"

definition ASN1_OCTET_STRING_free :: "byte list option \<Rightarrow> world \<Rightarrow> world" where
  "ASN1_OCTET_STRING_free oct w =
     (case oct of None \<Rightarrow> w | Some d \<Rightarrow> emit Ev_ASN1_OCTET_STRING_free w)"

text \<open>
  Modelled from the spec: the host key object that takes the record a decode or a key
  generation has built. \<^verbatim>\<open>EVP_PKEY_assign(pkey, type, key)\<close> stores the record in
  \<^verbatim>\<open>pkey->pkey.ptr\<close>; the adapter ignores its return value.
\<close>

definition EVP_PKEY_assign :: "EVP_PKEY \<Rightarrow> int \<Rightarrow> OQS_KEY \<Rightarrow> EVP_PKEY" where
  "EVP_PKEY_assign pkey type key = pkey\<lparr>ptr := Some key\<rparr>"

text \<open>A read or write through a \<^verbatim>\<open>NULL\<close> pointer that the C code does not guard.\<close>

datatype fault = NULL_DEREF

text \<open>\<^verbatim>\<open>memcpy(dst + off, src, n)\<close>.\<close>

definition memcpy_at :: "byte list \<Rightarrow> nat \<Rightarrow> byte list \<Rightarrow> nat \<Rightarrow> byte list" where
  "memcpy_at dst off src n = take off dst @ memcpy (drop off dst) src n"

subsection \<open>Wire codec\<close>

definition params_present :: "host \<Rightarrow> X509_ALGOR option \<Rightarrow> bool" where
  "params_present L palg =
     (case palg of None \<Rightarrow> False | Some a \<Rightarrow> ptype a \<noteq> V_ASN1_UNDEF L)"


definition oqs_pub_decode ::
  "host \<Rightarrow> EVP_PKEY \<Rightarrow> X509_PUBKEY \<Rightarrow> world \<Rightarrow> (fault + int) \<times> EVP_PKEY \<times> world" where
  "oqs_pub_decode L pkey pk w =
     (let id = pkey_id pkey in
      case X509_PUBKEY_get0_param pk w of
        (None, w1) \<Rightarrow> (Inr 0, pkey, w1)
      | (Some (None, pklen, palg), w1) \<Rightarrow> (Inr 0, pkey, OQSerr 0 ERR_R_FATAL w1)
      | (Some (Some p, pklen, palg), w1) \<Rightarrow>
          if params_present L palg then (Inr 0, pkey, OQSerr 0 ERR_R_FATAL w1)
          else
            (case oqs_key_init L id KEY_TYPE_PUBLIC w1 of
               (None, w2) \<Rightarrow> (Inr 0, pkey, OQSerr 0 ERR_R_FATAL w2)
             | (Some oqs_key, w2) \<Rightarrow>
                 (case oqs_s oqs_key of
                    None \<Rightarrow> (Inl NULL_DEREF, pkey, w2)
                  | Some e \<Rightarrow>
                      if pklen \<noteq> pub_key_len e then
                        (Inr 0, pkey, oqs_pkey_ctx_free (Some oqs_key) (OQSerr 0 ERR_R_FATAL w2))
                      else
                        (case pubkey oqs_key of
                           None \<Rightarrow> (Inl NULL_DEREF, pkey, w2)
                         | Some dst \<Rightarrow>
                             (Inr 1,
                              EVP_PKEY_assign pkey id
                                (oqs_key\<lparr>pubkey := Some (memcpy dst p pklen)\<rparr>),
                              w2)))))"

definition oqs_priv_decode ::
  "host \<Rightarrow> EVP_PKEY \<Rightarrow> PKCS8_PRIV_KEY_INFO \<Rightarrow> world \<Rightarrow> (fault + int) \<times> EVP_PKEY \<times> world" where
  "oqs_priv_decode L pkey p8 w =
     (case PKCS8_pkey_get0 p8 w of
        (None, w1) \<Rightarrow> (Inr 0, pkey, w1)
      | (Some (p0, plen0, palg), w1) \<Rightarrow>
          (case d2i_ASN1_OCTET_STRING p0 plen0 w1 of
             (oct, w2) \<Rightarrow>
               let (p, plen) = (case oct of None \<Rightarrow> (None, 0) | Some d \<Rightarrow> (Some d, length d)) in
               if params_present L palg then (Inr 0, pkey, OQSerr 0 ERR_R_FATAL w2)
               else
                 (case oqs_key_init L (pkey_id pkey) KEY_TYPE_PRIVATE w2 of
                    (None, w3) \<Rightarrow> (Inr 0, pkey, OQSerr 0 ERR_R_FATAL w3)
                  | (Some oqs_key, w3) \<Rightarrow>
                      (case oqs_s oqs_key of
                         None \<Rightarrow> (Inl NULL_DEREF, pkey, w3)
                       | Some e \<Rightarrow>
                           if plen \<noteq> priv_key_len e + pub_key_len e then
                             (Inr 0, pkey,
                              oqs_pkey_ctx_free (Some oqs_key) (OQSerr 0 ERR_R_FATAL w3))
                           else
                             (case (privkey oqs_key, pubkey oqs_key, p) of
                                (Some priv, Some pub, Some src) \<Rightarrow>
                                  (Inr 1,
                                   EVP_PKEY_assign pkey (pkey_id pkey)
                                     (oqs_key
                                        \<lparr>pubkey :=
                                           Some (memcpy pub (drop (priv_key_len e) src)
                                                   (pub_key_len e)),
                                         privkey := Some (memcpy priv src (priv_key_len e))\<rparr>),
                                   ASN1_OCTET_STRING_free oct w3)
                              | _ \<Rightarrow> (Inl NULL_DEREF, pkey, w3))))))"

text \<open>
  \<^verbatim>\<open>oqs_priv_encode\<close>. The C code keeps \<open>buflen\<close> in an \<^verbatim>\<open>int\<close>; the sum here
  is a natural number, which is the same value as long as it is below \<open>2 ^ 31\<close>.
\<close>

definition oqs_priv_encode ::
  "host \<Rightarrow> PKCS8_PRIV_KEY_INFO \<Rightarrow> EVP_PKEY \<Rightarrow> world
     \<Rightarrow> (fault + int) \<times> PKCS8_PRIV_KEY_INFO \<times> world" where
  "oqs_priv_encode L p8 pkey w =
     (case ptr pkey of
        None \<Rightarrow> (Inl NULL_DEREF, p8, w)
      | Some oqskey \<Rightarrow>
          (case oqs_s oqskey of
             None \<Rightarrow> (Inl NULL_DEREF, p8, w)
           | Some e \<Rightarrow>
               let buflen = priv_key_len e + pub_key_len e in
               (case OPENSSL_secure_malloc buflen w of
                  (None, w1) \<Rightarrow> (Inr 0, p8, OQSerr 0 ERR_R_MALLOC_FAILURE w1)
                | (Some buf0, w1) \<Rightarrow>
                    (case (privkey oqskey, pubkey oqskey) of
                       (Some priv, Some pub) \<Rightarrow>
                         let buf1 = memcpy buf0 priv (priv_key_len e);
                             buf = memcpy_at buf1 (priv_key_len e) pub (pub_key_len e)
                         in
                         (case i2d_ASN1_OCTET_STRING buf buflen w1 of
                            (None, w2) \<Rightarrow> (Inr 0, p8, OQSerr 0 ERR_R_MALLOC_FAILURE w2)
                          | (Some penc, w2) \<Rightarrow>
                              (case PKCS8_pkey_set0 p8 (pkey_id pkey) (V_ASN1_UNDEF L)
                                      penc (length penc) w2 of
                                 (None, w3) \<Rightarrow>
                                   (Inr 0, p8,
                                    OQSerr 0 ERR_R_MALLOC_FAILURE
                                      (OPENSSL_clear_free penc (length penc)
                                         (OPENSSL_secure_clear_free buf buflen w3)))
                               | (Some p8', w3) \<Rightarrow>
                                   (Inr 1, p8', OPENSSL_secure_clear_free buf buflen w3)))
                     | _ \<Rightarrow> (Inl NULL_DEREF, p8, w1)))))"

subsection \<open>Key queries and the sign/verify bridge\<close>

text \<open>
  The value of an unsigned field returned through a C \<^verbatim>\<open>int\<close>: the low 32 bits, read
  as two's complement.
\<close>

definition c_int :: "nat \<Rightarrow> int" where
  "c_int n = sint (of_nat n :: 32 word)"

definition oqs_size :: "EVP_PKEY \<Rightarrow> world \<Rightarrow> int \<times> world" where
  "oqs_size pkey w =
     (case ptr pkey of
        None \<Rightarrow> (0, OQSerr 0 ERR_R_FATAL w)
      | Some oqskey \<Rightarrow>
          (case oqs_s oqskey of
             None \<Rightarrow> (0, OQSerr 0 ERR_R_FATAL w)
           | Some e \<Rightarrow> (c_int (max_sig_len e), w)))"



definition oqs_free :: "EVP_PKEY \<Rightarrow> world \<Rightarrow> world" where
  "oqs_free pkey w = oqs_pkey_ctx_free (ptr pkey) w"











text \<open>
  The engine's operations. Each is recorded in the trace and may fail. On success
  \<^verbatim>\<open>OQS_SIG_keygen\<close> writes a key pair into the two buffers and \<^verbatim>\<open>OQS_SIG_sign\<close>
  writes a signature and its length; the bytes written are \<open>engine_out\<close>.
\<close>

definition OQS_SIG_keygen ::
  "OQS_SIG \<Rightarrow> byte list \<Rightarrow> byte list \<Rightarrow> world \<Rightarrow> bool \<times> byte list \<times> byte list \<times> world" where
  "OQS_SIG_keygen e priv pub w =
     (let (ok, w') = attempt (emit Ev_OQS_SIG_keygen w) in
      if ok
      then (True, memcpy priv (fst (engine_out w)) (priv_key_len e),
            memcpy pub (snd (engine_out w)) (pub_key_len e), w')
      else (False, priv, pub, w'))"

definition OQS_SIG_sign ::
  "OQS_SIG \<Rightarrow> byte list \<Rightarrow> byte list option \<Rightarrow> nat \<Rightarrow> byte list \<Rightarrow> nat \<Rightarrow> world
     \<Rightarrow> bool \<times> byte list \<times> nat \<times> world" where
  "OQS_SIG_sign e priv tbs tbslen sig siglen w =
     (let (ok, w') = attempt (emit Ev_OQS_SIG_sign w) in
      if ok
      then (True, memcpy sig (fst (engine_out w)) (length (fst (engine_out w))),
            length (fst (engine_out w)), w')
      else (False, sig, siglen, w'))"

definition OQS_SIG_verify ::
  "OQS_SIG \<Rightarrow> byte list \<Rightarrow> byte list \<Rightarrow> nat \<Rightarrow> byte list \<Rightarrow> nat \<Rightarrow> world \<Rightarrow> bool \<times> world" where
  "OQS_SIG_verify e pub tbs tbslen sig siglen w = attempt (emit Ev_OQS_SIG_verify w)"

text \<open>
  Modelled from the spec: the generic digest-engine initialization call (section 1), which
  the adapter calls with no digest; it may fail.
\<close>

definition EVP_DigestVerifyInit :: "world \<Rightarrow> bool \<times> world" where
  "EVP_DigestVerifyInit w = attempt (emit Ev_EVP_DigestVerifyInit w)"






text \<open>\<^verbatim>\<open>pkey_oqs_keygen\<close>; \<open>pmeth_id\<close> is \<^verbatim>\<open>ctx->pmeth->pkey_id\<close>.\<close>

definition pkey_oqs_keygen ::
  "host \<Rightarrow> int \<Rightarrow> EVP_PKEY \<Rightarrow> world \<Rightarrow> (fault + int) \<times> EVP_PKEY \<times> world" where
  "pkey_oqs_keygen L pmeth_id pkey w =
     (case oqs_key_init L pmeth_id KEY_TYPE_PRIVATE w of
        (None, w1) \<Rightarrow> (Inr 0, pkey, oqs_pkey_ctx_free None (OQSerr 0 ERR_R_FATAL w1))
      | (Some oqs_key, w1) \<Rightarrow>
          (case (oqs_s oqs_key, privkey oqs_key, pubkey oqs_key) of
             (Some e, Some priv, Some pub) \<Rightarrow>
               (case OQS_SIG_keygen e priv pub w1 of
                  (False, priv', pub', w2) \<Rightarrow>
                    (Inr 0, pkey,
                     oqs_pkey_ctx_free
                       (Some (oqs_key\<lparr>pubkey := Some pub', privkey := Some priv'\<rparr>))
                       (OQSerr 0 ERR_R_FATAL w2))
                | (True, priv', pub', w2) \<Rightarrow>
                    (Inr 1,
                     EVP_PKEY_assign pkey pmeth_id
                       (oqs_key\<lparr>pubkey := Some pub', privkey := Some priv'\<rparr>),
                     w2))
           | _ \<Rightarrow> (Inl NULL_DEREF, pkey, w1)))"

text \<open>
  \<^verbatim>\<open>pkey_oqs_digestsign\<close>; \<open>oqs_key\<close> is the record of the context's key, \<open>sig\<close> the
  signature buffer (\<open>None\<close> for \<^verbatim>\<open>NULL\<close>), \<open>siglen\<close> the value of \<^verbatim>\<open>*siglen\<close> on entry
  and \<open>tbs\<close> the message. The result is the return value, the signature buffer and
  \<^verbatim>\<open>*siglen\<close> on return.
\<close>

definition pkey_oqs_digestsign ::
  "OQS_KEY option \<Rightarrow> byte list option \<Rightarrow> nat \<Rightarrow> byte list option \<Rightarrow> nat \<Rightarrow> world
     \<Rightarrow> int \<times> byte list option \<times> nat \<times> world" where
  "pkey_oqs_digestsign oqs_key sig siglen tbs tbslen w =
     (case oqs_key of
        None \<Rightarrow> (0, sig, siglen, OQSerr 0 ERR_R_FATAL w)
      | Some k \<Rightarrow>
          (case (oqs_s k, privkey k) of
             (Some e, Some priv) \<Rightarrow>
               (case sig of
                  None \<Rightarrow> (1, sig, max_sig_len e, w)
                | Some sigbuf \<Rightarrow>
                    if siglen < max_sig_len e then (0, sig, siglen, OQSerr 0 ERR_R_FATAL w)
                    else
                      (case OQS_SIG_sign e priv tbs tbslen sigbuf siglen w of
                         (False, sig', siglen', w1) \<Rightarrow>
                           (0, Some sig', siglen', OQSerr 0 ERR_R_FATAL w1)
                       | (True, sig', siglen', w1) \<Rightarrow> (1, Some sig', siglen', w1)))
           | _ \<Rightarrow> (0, sig, siglen, OQSerr 0 ERR_R_FATAL w)))"



subsection \<open>Specification-side definitions and sample inputs\<close>

text \<open>
  The calls the specification asks of teardown, in its order: the RNG, the engine, the
  private bytes (erased over the engine's private-key length, 0 when the record has no
  engine), the public bytes, and last the record itself.
\<close>

definition teardown_calls :: "OQS_KEY \<Rightarrow> event list" where
  "teardown_calls k =
     (case oqs_s k of
        None \<Rightarrow> []
      | Some e \<Rightarrow>
          (case rand e of None \<Rightarrow> [] | Some r \<Rightarrow> [Ev_OQS_RAND_free r]) @ [Ev_OQS_SIG_free e])
     @ (case privkey k of
          None \<Rightarrow> []
        | Some b \<Rightarrow>
            [Ev_OPENSSL_secure_clear_free b
               (case oqs_s k of None \<Rightarrow> 0 | Some e \<Rightarrow> priv_key_len e)])
     @ (case pubkey k of None \<Rightarrow> [] | Some b \<Rightarrow> [Ev_OPENSSL_free b])
     @ [Ev_OPENSSL_free_key k]"

text \<open>
  A valid private-capable record of the algorithm \<open>nid\<close>: its engine is the one the
  library builds for \<open>nid\<close> (bound to some RNG), and both buffers are present with the
  engine's lengths, which are positive and whose sum fits the C \<^verbatim>\<open>int\<close> that
  \<^verbatim>\<open>oqs_priv_encode\<close> keeps it in.
\<close>

definition valid_private_record :: "host \<Rightarrow> int \<Rightarrow> OQS_KEY \<Rightarrow> byte list \<Rightarrow> byte list \<Rightarrow> bool" where
  "valid_private_record L nid k priv pub =
     (case sig_alg L (get_oqs_alg_id L nid) of
        None \<Rightarrow> False
      | Some e0 \<Rightarrow>
          (case oqs_s k of
             None \<Rightarrow> False
           | Some e \<Rightarrow>
               priv_key_len e = priv_key_len e0 \<and> pub_key_len e = pub_key_len e0 \<and>
               privkey k = Some priv \<and> pubkey k = Some pub \<and>
               length priv = priv_key_len e0 \<and> length pub = pub_key_len e0 \<and>
               0 < priv_key_len e0 \<and> 0 < pub_key_len e0 \<and>
               priv_key_len e0 + pub_key_len e0 < 2 ^ 31))"

text \<open>Sample inputs: a library with one two-plus-one byte engine, a world, a record.\<close>

definition sample_engine :: OQS_SIG where
  "sample_engine =
     \<lparr>rand = None, priv_key_len = 2, pub_key_len = 1, max_sig_len = 3,
      estimated_classical_security = 128\<rparr>"

definition sample_host :: host where
  "sample_host =
     \<lparr>NID_picnicL1FS = 1000, OQS_SIG_picnic_L1_FS = 1, V_ASN1_UNDEF = - 1,
      EVP_PKEY_CTRL_MD = 1, EVP_PKEY_CTRL_DIGESTINIT = 7,
      NID_undef = 0, X509_SIG_INFO_TLS = 1, OBJ_nid2ln = (\<lambda>n. ''picnicL1FS''),
      sig_alg = (\<lambda>a. if a = 1 then Some sample_engine else None)\<rparr>"

definition sample_world :: "bool list \<Rightarrow> world" where
  "sample_world os =
     \<lparr>outcomes = os, junk = (\<lambda>i. 0), engine_out = ([7, 8], [9]), trace = []\<rparr>"

definition sample_key :: OQS_KEY where
  "sample_key =
     \<lparr>oqs_s = Some (sample_engine\<lparr>rand := Some OQS_RAND_alg_default\<rparr>),
      pubkey = Some [9], privkey = Some [7, 8]\<rparr>"

definition sample_pkey :: EVP_PKEY where
  "sample_pkey = \<lparr>pkey_id = 1000, ptr = Some sample_key\<rparr>"

definition empty_pkey :: "int \<Rightarrow> EVP_PKEY" where
  "empty_pkey nid = \<lparr>pkey_id = nid, ptr = None\<rparr>"

definition empty_p8 :: PKCS8_PRIV_KEY_INFO where
  "empty_p8 = \<lparr>pkeyalg = None, pkey_octets = []\<rparr>"

text \<open>The error reports made between a world and a later one, oldest first.\<close>

definition new_reports :: "world \<Rightarrow> world \<Rightarrow> event list" where
  "new_reports w w' = filter is_OQSerr (drop (length (trace w)) (trace w'))"

text \<open>The length \<^verbatim>\<open>oqs_priv_decode\<close> keeps for the unwrapped octet string.\<close>

definition payload_length :: "byte list option \<Rightarrow> nat" where
  "payload_length oct = (case oct of None \<Rightarrow> 0 | Some d \<Rightarrow> length d)"

text \<open>The record invariant of the specification: no private bytes without public bytes.\<close>

definition private_has_public :: "OQS_KEY \<Rightarrow> bool" where
  "private_has_public k = (privkey k \<noteq> None \<longrightarrow> pubkey k \<noteq> None)"

text \<open>The records a trace hands to \<^verbatim>\<open>OPENSSL_free\<close>, oldest first.\<close>

fun freed_records :: "event list \<Rightarrow> OQS_KEY list" where
  "freed_records [] = []"
| "freed_records (Ev_OPENSSL_free_key k # es) = k # freed_records es"
| "freed_records (e # es) = freed_records es"

section \<open>Properties\<close>

subsection \<open>Collaborators\<close>

lemma attempt_cases:
  assumes "attempt w = (ok, w')"
  shows "trace w' = trace w"
  using assms by (auto simp: attempt_def split: list.splits)

lemma attempt_no_outcomes: "outcomes w = [] \<Longrightarrow> attempt w = (True, w)"
  by (simp add: attempt_def)

lemma trace_emit [simp]: "trace (emit e w) = trace w @ [e]"
  by (simp add: emit_def)

lemma outcomes_emit [simp]: "outcomes (emit e w) = outcomes w"
  by (simp add: emit_def)

lemma trace_OQSerr [simp]: "trace (OQSerr f r w) = trace w @ [Ev_OQSerr f r]"
  by (simp add: OQSerr_def)

lemma err_count_OQSerr [simp]: "err_count (OQSerr f r w) = Suc (err_count w)"
  by (simp add: err_count_def is_OQSerr_def)

lemma err_count_append:
  "trace w' = trace w @ es \<Longrightarrow> err_count w' = err_count w + length (filter is_OQSerr es)"
  by (simp add: err_count_def)

lemma err_count_eq: "trace w' = trace w \<Longrightarrow> err_count w' = err_count w"
  by (simp add: err_count_def)

lemma zalloc_trace: "OPENSSL_zalloc_OQS_KEY w = (r, w') \<Longrightarrow> trace w' = trace w"
  by (auto simp: OPENSSL_zalloc_OQS_KEY_def split: prod.splits dest: attempt_cases)

lemma zalloc_Some:
  "OPENSSL_zalloc_OQS_KEY w = (Some k, w') \<Longrightarrow> k = \<lparr>oqs_s = None, pubkey = None, privkey = None\<rparr>"
  by (auto simp: OPENSSL_zalloc_OQS_KEY_def split: prod.splits if_splits)

lemma rand_new_trace: "OQS_RAND_new w = (r, w') \<Longrightarrow> trace w' = trace w"
  by (auto simp: OQS_RAND_new_def split: prod.splits dest: attempt_cases)

lemma sig_new_trace: "OQS_SIG_new L r alg w = (x, w') \<Longrightarrow> trace w' = trace w"
  by (auto simp: OQS_SIG_new_def split: prod.splits option.splits dest: attempt_cases)

lemma sig_new_Some:
  "OQS_SIG_new L r alg w = (Some e, w') \<Longrightarrow> \<exists>e0. sig_alg L alg = Some e0 \<and> e = e0\<lparr>rand := Some r\<rparr>"
  by (auto simp: OQS_SIG_new_def split: prod.splits option.splits if_splits)

lemma malloc_None: "OPENSSL_malloc n w = (None, w') \<Longrightarrow> trace w' = trace w"
  by (auto simp: OPENSSL_malloc_def split: prod.splits if_splits dest: attempt_cases)

lemma malloc_Some:
  "OPENSSL_malloc n w = (Some b, w') \<Longrightarrow>
     trace w' = trace w @ [Ev_OPENSSL_malloc n] \<and> length b = n \<and> 0 < n"
  by (auto simp: OPENSSL_malloc_def split: prod.splits if_splits dest: attempt_cases)

lemma secure_malloc_None: "OPENSSL_secure_malloc n w = (None, w') \<Longrightarrow> trace w' = trace w"
  by (auto simp: OPENSSL_secure_malloc_def split: prod.splits if_splits dest: attempt_cases)

lemma secure_malloc_Some:
  "OPENSSL_secure_malloc n w = (Some b, w') \<Longrightarrow>
     trace w' = trace w @ [Ev_OPENSSL_secure_malloc n] \<and> length b = n \<and> 0 < n"
  by (auto simp: OPENSSL_secure_malloc_def split: prod.splits if_splits dest: attempt_cases)

lemmas free_defs = OQS_SIG_free_def OQS_RAND_free_def OPENSSL_secure_clear_free_def
  OPENSSL_free_def OPENSSL_free_key_def OPENSSL_clear_free_def

lemma err_count_ctx_free [simp]: "err_count (oqs_pkey_ctx_free key w) = err_count w"
  by (simp add: oqs_pkey_ctx_free_def err_count_def is_OQSerr_def free_defs
      split: option.splits)

lemma memcpy_whole: "length src = n \<Longrightarrow> length dst = n \<Longrightarrow> memcpy dst src n = src"
  by (simp add: memcpy_def)

subsection \<open>The octet-string codec inverts itself\<close>

lemma be_nat_snoc: "be_nat (bs @ [b]) = be_nat bs * 256 + unat b"
  by (simp add: be_nat_def)

lemma unat_byte_mod: "unat (of_nat (n mod 256) :: byte) = n mod 256"
  by (simp add: unat_of_nat)

lemma be_nat_nat_be: "be_nat (nat_be n) = n"
proof (induction n rule: nat_be.induct)
  case (1 n)
  show ?case
  proof (cases "n = 0")
    case True
    then show ?thesis by (simp add: nat_be.simps be_nat_def)
  next
    case False
    with 1 have "be_nat (nat_be (n div 256)) = n div 256" by simp
    with False show ?thesis
      by (subst nat_be.simps) (simp add: be_nat_snoc unat_byte_mod)
  qed
qed

lemma length_nat_be: "n < 256 ^ k \<Longrightarrow> length (nat_be n) \<le> k"
proof (induction n arbitrary: k rule: nat_be.induct)
  case (1 n)
  show ?case
  proof (cases "n = 0")
    case True
    then show ?thesis by (simp add: nat_be.simps)
  next
    case False
    with "1.prems" obtain j where k: "k = Suc j"
      by (cases k) auto
    with "1.prems" have "n div 256 < 256 ^ j"
      by (simp add: less_mult_imp_div_less mult.commute)
    with 1 False have "length (nat_be (n div 256)) \<le> j" by simp
    with False k show ?thesis
      by (subst nat_be.simps) simp
  qed
qed

lemma nat_be_nonempty: "0 < n \<Longrightarrow> nat_be n \<noteq> []"
  by (subst nat_be.simps) simp

lemma der_parse_der_octet_string:
  assumes "length d < 2 ^ 31"
  shows "der_parse_octet_string (der_octet_string d @ rest) = Some d"
proof (cases "length d < 128")
  case True
  then have "unat (of_nat (length d) :: byte) = length d"
    by (simp add: unat_of_nat)
  with True show ?thesis
    by (simp add: der_parse_octet_string_def der_octet_string_def der_length_def)
next
  case False
  define ds where "ds = nat_be (length d)"
  have "length d < 256 ^ 4" using assms by simp
  then have len: "length ds \<le> 4" unfolding ds_def by (rule length_nat_be)
  from False have "0 < length d" by linarith
  then have ne: "ds \<noteq> []" unfolding ds_def by (rule nat_be_nonempty)
  have l: "unat (of_nat (128 + length ds) :: byte) = 128 + length ds"
    using len by (subst unat_of_nat) simp
  have "be_nat ds = length d" unfolding ds_def by (rule be_nat_nat_be)
  with False len ne l show ?thesis
    by (simp add: der_parse_octet_string_def der_octet_string_def der_length_def
        ds_def [symmetric] Let_def)
qed


subsection \<open>More on the collaborators\<close>

lemma zalloc_result:
  "OPENSSL_zalloc_OQS_KEY w = (r, w') \<Longrightarrow>
     trace w' = trace w \<and> (r = None \<or> r = Some \<lparr>oqs_s = None, pubkey = None, privkey = None\<rparr>)"
  by (auto simp: OPENSSL_zalloc_OQS_KEY_def split: prod.splits if_splits dest: attempt_cases)



lemma pub_get0_result:
  "X509_PUBKEY_get0_param pk w = (Some (p, n, a), w') \<Longrightarrow>
     public_key pk = p \<and> algor pk = a \<and>
     n = (case public_key pk of None \<Rightarrow> 0 | Some d \<Rightarrow> length d) \<and> trace w' = trace w"
  by (auto simp: X509_PUBKEY_get0_param_def split: prod.splits if_splits dest: attempt_cases)


lemma p8_get0_result:
  "PKCS8_pkey_get0 p8 w = (Some (p, n, a), w') \<Longrightarrow>
     pkey_octets p8 = p \<and> pkeyalg p8 = a \<and> n = length p \<and> trace w' = trace w"
  by (auto simp: PKCS8_pkey_get0_def split: prod.splits if_splits dest: attempt_cases)



lemma i2d_result:
  "i2d_ASN1_OCTET_STRING d n w = (Some penc, w') \<Longrightarrow> penc = der_octet_string (take n d)"
  by (auto simp: i2d_ASN1_OCTET_STRING_def split: prod.splits if_splits)

lemma p8_set0_result:
  "PKCS8_pkey_set0 p8 aobj pt penc n w = (Some p8', w') \<Longrightarrow>
     pkey_octets p8' = take n penc \<and> pkeyalg p8' = Some \<lparr>algorithm = aobj, ptype = pt\<rparr>"
  by (auto simp: PKCS8_pkey_set0_def split: prod.splits if_splits)

lemma d2i_result:
  "d2i_ASN1_OCTET_STRING p n w = (Some d, w') \<Longrightarrow> der_parse_octet_string (take n p) = Some d"
  by (auto simp: d2i_ASN1_OCTET_STRING_def split: prod.splits if_splits)




subsection \<open>Evaluating the model on the sample inputs\<close>

lemmas sample_defs = sample_host_def sample_engine_def sample_world_def sample_key_def
  sample_pkey_def empty_pkey_def empty_p8_def

lemmas collaborator_defs = attempt_def emit_def OQSerr_def OPENSSL_zalloc_OQS_KEY_def
  OPENSSL_malloc_def OPENSSL_secure_malloc_def OPENSSL_memdup_def OQS_RAND_new_def
  OQS_SIG_new_def X509_PUBKEY_get0_param_def X509_PUBKEY_set0_param_def PKCS8_pkey_get0_def
  PKCS8_pkey_set0_def i2d_ASN1_OCTET_STRING_def d2i_ASN1_OCTET_STRING_def
  ASN1_OCTET_STRING_free_def EVP_PKEY_assign_def memcpy_def memcpy_at_def
  OQS_SIG_keygen_def OQS_SIG_sign_def OQS_SIG_verify_def EVP_DigestVerifyInit_def
  get_oqs_alg_id_def params_present_def der_octet_string_def der_length_def
  der_parse_octet_string_def


lemma upt_small: "[0..<2] = [0, 1]" "[0..<3] = [0, 1, 2]"
  by (simp_all add: numeral_2_eq_2 numeral_3_eq_3)

subsection \<open>Allocation of a key record\<close>

lemma oqs_key_init_Some:
  assumes "oqs_key_init L nid keytype w = (Some k, w')"
  shows "\<exists>e0 r pub. sig_alg L (get_oqs_alg_id L nid) = Some e0 \<and>
           oqs_s k = Some (e0\<lparr>rand := Some r\<rparr>) \<and>
           pubkey k = Some pub \<and> length pub = pub_key_len e0 \<and>
           (if keytype = KEY_TYPE_PRIVATE
            then \<exists>priv. privkey k = Some priv \<and> length priv = priv_key_len e0
            else privkey k = None)"
  using assms
  by (auto simp: oqs_key_init_def Let_def
           split: option.splits prod.splits if_splits 
           dest!: zalloc_Some sig_new_Some malloc_Some secure_malloc_Some)


lemma oqs_key_init_None_err:
  assumes "oqs_key_init L nid keytype w = (None, w')"
  shows "err_count w < err_count w'"
  using assms
  by (auto simp: oqs_key_init_def Let_def err_count_append is_OQSerr_def
           split: option.splits prod.splits if_splits
           dest!: zalloc_trace rand_new_trace sig_new_trace malloc_None malloc_Some
                  secure_malloc_None err_count_eq)

lemma oqs_key_init_no_failures:
  assumes "outcomes w = []" and "sig_alg L (get_oqs_alg_id L nid) = Some e0"
    and "0 < pub_key_len e0" and "keytype = KEY_TYPE_PRIVATE \<Longrightarrow> 0 < priv_key_len e0"
  shows "\<exists>k w'. oqs_key_init L nid keytype w = (Some k, w') \<and> outcomes w' = []"
  using assms
  by (cases keytype)
     (simp_all add: oqs_key_init_def OPENSSL_zalloc_OQS_KEY_def OQS_RAND_new_def OQS_SIG_new_def
      OPENSSL_malloc_def OPENSSL_secure_malloc_def attempt_no_outcomes)

lemma oqs_pkey_ctx_free_trace:
  "trace (oqs_pkey_ctx_free None w) = trace w"
  "trace (oqs_pkey_ctx_free (Some k) w) = trace w @ teardown_calls k"
  by (simp_all add: oqs_pkey_ctx_free_def teardown_calls_def free_defs split: option.splits)

lemma freed_records_append [simp]: "freed_records (xs @ ys) = freed_records xs @ freed_records ys"
  by (induction xs rule: freed_records.induct) simp_all

lemma freed_records_teardown [simp]: "freed_records (teardown_calls k) = [k]"
  by (simp add: teardown_calls_def split: option.splits)

lemma oqs_key_init_partial_records:
  assumes "oqs_key_init L nid keytype w = (None, w')"
  shows "freed_records (trace w') = freed_records (trace w) \<or>
         (\<exists>k. freed_records (trace w') = freed_records (trace w) @ [k] \<and> privkey k = None)"
  using assms
  by (auto simp: oqs_key_init_def Let_def oqs_pkey_ctx_free_trace
      split: option.splits prod.splits if_splits
      dest!: zalloc_result rand_new_trace sig_new_trace malloc_None malloc_Some
             secure_malloc_None)

subsection \<open>Teardown\<close>

text \<open>
  C2. Teardown of a \<^verbatim>\<open>NULL\<close> record does nothing. Teardown of any record, complete
  or partly built, makes exactly the calls of \<open>teardown_calls\<close> in that order and changes
  nothing else: the RNG is freed, then the engine, then the private bytes are erased and
  freed over the private-key length read from the engine before it was freed, then the
  public bytes are freed (and last the record); a part that is absent is skipped.
\<close>

theorem oqs_pkey_ctx_free_steps:
  "oqs_pkey_ctx_free None w = w \<and>
   oqs_pkey_ctx_free (Some k) w = w\<lparr>trace := trace w @ teardown_calls k\<rparr>"
  by (simp add: oqs_pkey_ctx_free_def teardown_calls_def free_defs emit_def
      split: option.splits)

subsection \<open>Unknown algorithm identifiers\<close>

lemma oqs_key_init_unsupported':
  assumes "sig_alg L (get_oqs_alg_id L nid) = None"
  shows "\<exists>w'. oqs_key_init L nid keytype w = (None, w') \<and> err_count w < err_count w'"
proof -
  obtain r w' where r: "oqs_key_init L nid keytype w = (r, w')" by (cases "oqs_key_init L nid keytype w")
  with assms have "r = None" by (cases r) (auto dest!: oqs_key_init_Some)
  with r show ?thesis by (auto dest: oqs_key_init_None_err)
qed

lemma oqs_key_init_unsupported_trace:
  assumes "sig_alg L (get_oqs_alg_id L nid) = None" and "outcomes w = []"
  shows "oqs_key_init L nid keytype w =
           (None, w\<lparr>trace := trace w @ [Ev_OQSerr 0 ERR_R_FATAL,
                 Ev_OPENSSL_free_key \<lparr>oqs_s = None, pubkey = None, privkey = None\<rparr>]\<rparr>)"
  using assms
  by (simp add: oqs_key_init_def OPENSSL_zalloc_OQS_KEY_def OQS_RAND_new_def OQS_SIG_new_def
      attempt_no_outcomes oqs_pkey_ctx_free_def OQSerr_def emit_def free_defs)

lemma new_reports_append:
  "trace w' = trace w @ es \<Longrightarrow> new_reports w w' = filter is_OQSerr es"
  by (simp add: new_reports_def)

lemma oqs_key_init_unsupported_reports:
  assumes "sig_alg L (get_oqs_alg_id L nid) = None"
  shows "\<exists>w'. oqs_key_init L nid keytype w = (None, w') \<and>
           new_reports w w' =
             [Ev_OQSerr 0 (if fst (OPENSSL_zalloc_OQS_KEY w) = None
                           then ERR_R_MALLOC_FAILURE else ERR_R_FATAL)]"
proof -
  obtain r0 w1 where z: "OPENSSL_zalloc_OQS_KEY w = (r0, w1)"
    by (cases "OPENSSL_zalloc_OQS_KEY w")
  then have t1: "trace w1 = trace w"
    by (rule zalloc_trace)
  show ?thesis
  proof (cases r0)
    case None
    with z t1 show ?thesis
      by (simp add: oqs_key_init_def oqs_pkey_ctx_free_trace new_reports_append is_OQSerr_def)
  next
    case (Some k0)
    with z have k0: "k0 = \<lparr>oqs_s = None, pubkey = None, privkey = None\<rparr>"
      by (auto dest: zalloc_Some)
    obtain r1 w2 where r: "OQS_RAND_new w1 = (r1, w2)"
      by (cases "OQS_RAND_new w1")
    then have t2: "trace w2 = trace w1"
      by (rule rand_new_trace)
    have frees: "filter is_OQSerr (teardown_calls k0) = []"
      by (simp add: k0 teardown_calls_def is_OQSerr_def)
    from z Some r t1 t2 assms frees show ?thesis
      by (cases r1)
         (simp_all add: oqs_key_init_def OQS_SIG_new_def oqs_pkey_ctx_free_trace
            new_reports_append is_OQSerr_def)
  qed
qed

lemma oqs_pub_decode_unsupported:
  assumes "sig_alg L (get_oqs_alg_id L (pkey_id pkey)) = None"
  shows "\<exists>w'. oqs_pub_decode L pkey pk w = (Inr 0, pkey, w')"
  using assms
  by (auto simp: oqs_pub_decode_def Let_def split: prod.splits option.splits
      dest!: oqs_key_init_Some)

lemma oqs_priv_decode_unsupported:
  assumes "sig_alg L (get_oqs_alg_id L (pkey_id pkey)) = None"
  shows "\<exists>w'. oqs_priv_decode L pkey p8 w = (Inr 0, pkey, w')"
  using assms
  by (auto simp: oqs_priv_decode_def Let_def split: prod.splits option.splits
      dest!: oqs_key_init_Some)

lemma pkey_oqs_keygen_unsupported:
  assumes "sig_alg L (get_oqs_alg_id L pmeth_id) = None"
  shows "\<exists>w'. pkey_oqs_keygen L pmeth_id pkey w = (Inr 0, pkey, w')"
  using assms
  by (auto simp: pkey_oqs_keygen_def Let_def split: prod.splits option.splits
      dest!: oqs_key_init_Some)

text \<open>
  C6 (amended). For an identifier other than the one wired algorithm
  \<^verbatim>\<open>get_oqs_alg_id\<close> gives the selector \<open>-1\<close>, which \<^verbatim>\<open>oqs_key_init\<close> hands to the
  engine constructor without testing it. When the engine library rejects that selector,
  key allocation returns failure and stores no record, and key generation, public-key
  decode and private-key decode for that identifier return 0 and leave the host key object
  as it was. There is no unsupported-algorithm error: the one report key allocation makes
  is \<^verbatim>\<open>ERR_R_MALLOC_FAILURE\<close> when allocating the record fails, and otherwise the
  \<^verbatim>\<open>ERR_R_FATAL\<close> that any failed engine or RNG construction makes. With an engine
  library that accepted the selector, key allocation would build a record.
\<close>

theorem unknown_algorithm_fails:
  assumes "nid \<noteq> NID_picnicL1FS L"
  shows "get_oqs_alg_id L nid = - 1 \<and>
     (sig_alg L (- 1) = None \<longrightarrow>
        (\<exists>w'. oqs_key_init L nid keytype w = (None, w') \<and>
              new_reports w w' =
                [Ev_OQSerr 0 (if fst (OPENSSL_zalloc_OQS_KEY w) = None
                              then ERR_R_MALLOC_FAILURE else ERR_R_FATAL)]) \<and>
        (\<exists>w'. pkey_oqs_keygen L nid pkey w = (Inr 0, pkey, w'))) \<and>
     (sig_alg L (- 1) = None \<longrightarrow> pkey_id pkey = nid \<longrightarrow>
        (\<exists>w'. oqs_pub_decode L pkey pk w = (Inr 0, pkey, w')) \<and>
        (\<exists>w'. oqs_priv_decode L pkey p8 w = (Inr 0, pkey, w'))) \<and>
     (sig_alg L (- 1) = None \<longrightarrow> outcomes w = [] \<longrightarrow>
        oqs_key_init L nid keytype w =
           (None, w\<lparr>trace := trace w @ [Ev_OQSerr 0 ERR_R_FATAL,
                 Ev_OPENSSL_free_key \<lparr>oqs_s = None, pubkey = None, privkey = None\<rparr>]\<rparr>)) \<and>
     (sig_alg L (- 1) = Some e0 \<longrightarrow> outcomes w = [] \<longrightarrow>
        0 < pub_key_len e0 \<longrightarrow> 0 < priv_key_len e0 \<longrightarrow>
        (\<exists>k w'. oqs_key_init L nid keytype w = (Some k, w')))"
proof -
  from assms have alg: "get_oqs_alg_id L nid = - 1"
    by (simp add: get_oqs_alg_id_def)
  show ?thesis
  proof (intro conjI impI)
    show "get_oqs_alg_id L nid = - 1" by (rule alg)
  next
    assume "sig_alg L (- 1) = None"
    with alg have none: "sig_alg L (get_oqs_alg_id L nid) = None" by simp
    show "\<exists>w'. oqs_key_init L nid keytype w = (None, w') \<and>
              new_reports w w' =
                [Ev_OQSerr 0 (if fst (OPENSSL_zalloc_OQS_KEY w) = None
                              then ERR_R_MALLOC_FAILURE else ERR_R_FATAL)]"
      by (rule oqs_key_init_unsupported_reports [OF none])
  next
    assume "sig_alg L (- 1) = None"
    with alg have none: "sig_alg L (get_oqs_alg_id L nid) = None" by simp
    show "\<exists>w'. pkey_oqs_keygen L nid pkey w = (Inr 0, pkey, w')"
      by (rule pkey_oqs_keygen_unsupported [OF none])
  next
    assume "sig_alg L (- 1) = None" "pkey_id pkey = nid"
    with alg have "sig_alg L (get_oqs_alg_id L (pkey_id pkey)) = None" by simp
    then show "\<exists>w'. oqs_pub_decode L pkey pk w = (Inr 0, pkey, w')"
      by (rule oqs_pub_decode_unsupported)
  next
    assume "sig_alg L (- 1) = None" "pkey_id pkey = nid"
    with alg have "sig_alg L (get_oqs_alg_id L (pkey_id pkey)) = None" by simp
    then show "\<exists>w'. oqs_priv_decode L pkey p8 w = (Inr 0, pkey, w')"
      by (rule oqs_priv_decode_unsupported)
  next
    assume "sig_alg L (- 1) = None" and w: "outcomes w = []"
    with alg have none: "sig_alg L (get_oqs_alg_id L nid) = None" by simp
    from none w show "oqs_key_init L nid keytype w =
           (None, w\<lparr>trace := trace w @ [Ev_OQSerr 0 ERR_R_FATAL,
                 Ev_OPENSSL_free_key \<lparr>oqs_s = None, pubkey = None, privkey = None\<rparr>]\<rparr>)"
      by (rule oqs_key_init_unsupported_trace)
  next
    assume "sig_alg L (- 1) = Some e0" and w: "outcomes w = []"
      and pos: "0 < pub_key_len e0" "0 < priv_key_len e0"
    with alg have some: "sig_alg L (get_oqs_alg_id L nid) = Some e0" by simp
    from oqs_key_init_no_failures [OF w some pos(1)] pos(2)
    show "\<exists>k w'. oqs_key_init L nid keytype w = (Some k, w')" by blast
  qed
qed

theorem unknown_algorithm_fails_witness:
  "5 \<noteq> NID_picnicL1FS sample_host \<and> sig_alg sample_host (- 1) = None \<and>
   get_oqs_alg_id sample_host 5 = - 1 \<and>
   fst (OPENSSL_zalloc_OQS_KEY (sample_world [False])) = None \<and>
   (\<exists>w'. oqs_key_init sample_host 5 KEY_TYPE_PRIVATE (sample_world [False]) = (None, w') \<and>
         new_reports (sample_world [False]) w' = [Ev_OQSerr 0 ERR_R_MALLOC_FAILURE]) \<and>
   fst (OPENSSL_zalloc_OQS_KEY (sample_world [])) \<noteq> None \<and>
   (\<exists>w'. oqs_key_init sample_host 5 KEY_TYPE_PRIVATE (sample_world []) = (None, w') \<and>
         new_reports (sample_world []) w' = [Ev_OQSerr 0 ERR_R_FATAL]) \<and>
   oqs_key_init sample_host 5 KEY_TYPE_PRIVATE (sample_world []) =
     (None, (sample_world [])\<lparr>trace := [Ev_OQSerr 0 ERR_R_FATAL,
        Ev_OPENSSL_free_key \<lparr>oqs_s = None, pubkey = None, privkey = None\<rparr>]\<rparr>) \<and>
   (\<exists>w'. oqs_pub_decode sample_host (empty_pkey 5) \<lparr>algor = None, public_key = Some [9]\<rparr>
           (sample_world []) = (Inr 0, empty_pkey 5, w')) \<and>
   (\<exists>w'. oqs_priv_decode sample_host (empty_pkey 5)
           \<lparr>pkeyalg = None, pkey_octets = [4, 3, 7, 8, 9]\<rparr> (sample_world [])
         = (Inr 0, empty_pkey 5, w')) \<and>
   (\<exists>w'. pkey_oqs_keygen sample_host 5 (empty_pkey 5) (sample_world []) = (Inr 0, empty_pkey 5, w')) \<and>
   sig_alg (sample_host\<lparr>sig_alg := \<lambda>a. Some sample_engine\<rparr>) (- 1) = Some sample_engine \<and>
   (\<exists>k w'. oqs_key_init (sample_host\<lparr>sig_alg := \<lambda>a. Some sample_engine\<rparr>) 5 KEY_TYPE_PRIVATE
             (sample_world []) = (Some k, w'))"
proof -
  let ?L = sample_host and ?A = "sample_host\<lparr>sig_alg := \<lambda>a. Some sample_engine\<rparr>"
  let ?w = "sample_world []" and ?f = "sample_world [False]"
  let ?pk = "\<lparr>algor = None, public_key = Some [9 :: byte]\<rparr>"
  let ?p8 = "\<lparr>pkeyalg = None, pkey_octets = [4, 3, 7, 8, 9 :: byte]\<rparr>"
  have n: "5 \<noteq> NID_picnicL1FS ?L" and r: "sig_alg ?L (- 1) = None"
    by (simp_all add: sample_host_def)
  have nA: "5 \<noteq> NID_picnicL1FS ?A" and a: "sig_alg ?A (- 1) = Some sample_engine"
    by (simp_all add: sample_host_def)
  have zf: "fst (OPENSSL_zalloc_OQS_KEY ?f) = None"
    and zw: "fst (OPENSSL_zalloc_OQS_KEY ?w) \<noteq> None"
    by (simp_all add: OPENSSL_zalloc_OQS_KEY_def attempt_def sample_world_def)
  have ow: "outcomes ?w = []"
    by (simp add: sample_world_def)
  have id: "pkey_id (empty_pkey 5) = 5"
    by (simp add: empty_pkey_def)
  have pos: "0 < pub_key_len sample_engine" "0 < priv_key_len sample_engine"
    by (simp_all add: sample_engine_def)
  note F = unknown_algorithm_fails [OF n, where keytype = KEY_TYPE_PRIVATE and w = ?f]
  note W = unknown_algorithm_fails [OF n, where keytype = KEY_TYPE_PRIVATE and w = ?w
      and pkey = "empty_pkey 5" and pk = ?pk and ?p8.0 = ?p8]
  note A = unknown_algorithm_fails [OF nA, where keytype = KEY_TYPE_PRIVATE and w = ?w]
  have 1: "get_oqs_alg_id ?L 5 = - 1"
    using W [THEN conjunct1] .
  have 2: "\<exists>w'. oqs_key_init ?L 5 KEY_TYPE_PRIVATE ?f = (None, w') \<and>
         new_reports ?f w' = [Ev_OQSerr 0 ERR_R_MALLOC_FAILURE]"
    using F [THEN conjunct2, THEN conjunct1, rule_format, OF r, THEN conjunct1] zf by simp
  have 3: "\<exists>w'. oqs_key_init ?L 5 KEY_TYPE_PRIVATE ?w = (None, w') \<and>
         new_reports ?w w' = [Ev_OQSerr 0 ERR_R_FATAL]"
    using W [THEN conjunct2, THEN conjunct1, rule_format, OF r, THEN conjunct1] zw by simp
  have 4: "\<exists>w'. pkey_oqs_keygen ?L 5 (empty_pkey 5) ?w = (Inr 0, empty_pkey 5, w')"
    using W [THEN conjunct2, THEN conjunct1, rule_format, OF r, THEN conjunct2] .
  have 5: "(\<exists>w'. oqs_pub_decode ?L (empty_pkey 5) ?pk ?w = (Inr 0, empty_pkey 5, w')) \<and>
           (\<exists>w'. oqs_priv_decode ?L (empty_pkey 5) ?p8 ?w = (Inr 0, empty_pkey 5, w'))"
    using W [THEN conjunct2, THEN conjunct2, THEN conjunct1, rule_format, OF r id] .
  have 6: "oqs_key_init ?L 5 KEY_TYPE_PRIVATE ?w =
     (None, ?w\<lparr>trace := trace ?w @ [Ev_OQSerr 0 ERR_R_FATAL,
        Ev_OPENSSL_free_key \<lparr>oqs_s = None, pubkey = None, privkey = None\<rparr>]\<rparr>)"
    using W [THEN conjunct2, THEN conjunct2, THEN conjunct2, THEN conjunct1, rule_format,
        OF r ow] .
  have 7: "\<exists>k w'. oqs_key_init ?A 5 KEY_TYPE_PRIVATE ?w = (Some k, w')"
    using A [THEN conjunct2, THEN conjunct2, THEN conjunct2, THEN conjunct2, rule_format,
        OF a ow pos] .
  from n r 1 zf 2 zw 3 4 5 6 a 7 show ?thesis
    by (simp add: sample_world_def)
qed

text \<open>
  The claim as stated fails: for the unknown identifier 5, when allocating the record
  fails the only report is \<^verbatim>\<open>ERR_R_MALLOC_FAILURE\<close>; and when nothing else fails the
  trace is the one that a failed \<^verbatim>\<open>OQS_RAND_new\<close> leaves for the wired identifier, so
  no report says that the algorithm is unsupported.
\<close>

theorem unknown_algorithm_error_counterexample:
  "get_oqs_alg_id sample_host 5 = - 1 \<and>
   oqs_key_init sample_host 5 KEY_TYPE_PUBLIC (sample_world [False]) =
     (None, (sample_world [])\<lparr>trace := [Ev_OQSerr 0 ERR_R_MALLOC_FAILURE]\<rparr>) \<and>
   get_oqs_alg_id sample_host 1000 = 1 \<and>
   trace (snd (oqs_key_init sample_host 5 KEY_TYPE_PUBLIC (sample_world []))) =
     trace (snd (oqs_key_init sample_host 1000 KEY_TYPE_PUBLIC (sample_world [True, False])))"
  by (simp add: oqs_key_init_def sample_defs collaborator_defs oqs_pkey_ctx_free_def free_defs)

subsection \<open>Private bytes never come without public bytes\<close>

lemma pkey_oqs_keygen_success:
  assumes "pkey_oqs_keygen L pmeth_id pkey w = (Inr 1, pkey', w')"
  shows "\<exists>k pub priv. ptr pkey' = Some k \<and> pubkey k = Some pub \<and> privkey k = Some priv"
  using assms
  by (auto simp: pkey_oqs_keygen_def EVP_PKEY_assign_def
      split: prod.splits option.splits bool.splits)

lemma oqs_pub_decode_result:
  assumes "oqs_pub_decode L pkey pk w = (Inr 1, pkey', w')"
  shows "\<exists>k pub. ptr pkey' = Some k \<and> pubkey k = Some pub \<and> privkey k = None"
  using assms
  by (auto simp: oqs_pub_decode_def EVP_PKEY_assign_def Let_def
      split: prod.splits option.splits if_splits dest!: oqs_key_init_Some)

lemma oqs_priv_decode_result:
  assumes "oqs_priv_decode L pkey p8 w = (Inr 1, pkey', w')"
  shows "\<exists>k pub priv. ptr pkey' = Some k \<and> pubkey k = Some pub \<and> privkey k = Some priv"
  using assms
  by (auto simp: oqs_priv_decode_def EVP_PKEY_assign_def Let_def
      split: prod.splits option.splits if_splits)

text \<open>
  C9. Every record a construction path produces satisfies the invariant "private bytes
  present implies public bytes present": the record \<^verbatim>\<open>oqs_key_init\<close> returns, the
  partly built records it tears down when it fails (none of which has private bytes), and
  the records that key generation, public-key decode and private-key decode hand to the
  host key object.
\<close>

theorem private_bytes_only_with_public_bytes:
  "(oqs_key_init L nid keytype w = (Some k, w') \<longrightarrow> private_has_public k) \<and>
   (oqs_key_init L nid keytype w = (None, w') \<longrightarrow>
      (\<forall>k' \<in> set (drop (length (freed_records (trace w))) (freed_records (trace w'))).
         privkey k' = None \<and> private_has_public k')) \<and>
   (pkey_oqs_keygen L pmeth_id pkey w = (Inr 1, pkey', w') \<longrightarrow>
      (\<exists>k'. ptr pkey' = Some k' \<and> private_has_public k')) \<and>
   (oqs_pub_decode L pkey pk w = (Inr 1, pkey', w') \<longrightarrow>
      (\<exists>k'. ptr pkey' = Some k' \<and> private_has_public k')) \<and>
   (oqs_priv_decode L pkey p8 w = (Inr 1, pkey', w') \<longrightarrow>
      (\<exists>k'. ptr pkey' = Some k' \<and> private_has_public k'))"
proof (intro conjI impI)
  assume "oqs_key_init L nid keytype w = (Some k, w')"
  then show "private_has_public k"
    by (auto simp: private_has_public_def dest!: oqs_key_init_Some)
next
  assume "oqs_key_init L nid keytype w = (None, w')"
  from oqs_key_init_partial_records [OF this]
  show "\<forall>k' \<in> set (drop (length (freed_records (trace w))) (freed_records (trace w'))).
          privkey k' = None \<and> private_has_public k'"
    by (auto simp: private_has_public_def)
next
  assume "pkey_oqs_keygen L pmeth_id pkey w = (Inr 1, pkey', w')"
  then show "\<exists>k'. ptr pkey' = Some k' \<and> private_has_public k'"
    by (auto simp: private_has_public_def dest!: pkey_oqs_keygen_success)
next
  assume "oqs_pub_decode L pkey pk w = (Inr 1, pkey', w')"
  then show "\<exists>k'. ptr pkey' = Some k' \<and> private_has_public k'"
    by (auto simp: private_has_public_def dest!: oqs_pub_decode_result)
next
  assume "oqs_priv_decode L pkey p8 w = (Inr 1, pkey', w')"
  then show "\<exists>k'. ptr pkey' = Some k' \<and> private_has_public k'"
    by (auto simp: private_has_public_def dest!: oqs_priv_decode_result)
qed

theorem private_bytes_only_with_public_bytes_witness:
  "oqs_key_init sample_host 1000 KEY_TYPE_PRIVATE (sample_world []) =
     (Some \<lparr>oqs_s = Some (sample_engine\<lparr>rand := Some OQS_RAND_alg_default\<rparr>),
             pubkey = Some [0], privkey = Some [0, 0]\<rparr>,
      (sample_world [])\<lparr>trace := [Ev_OPENSSL_malloc 1, Ev_OPENSSL_secure_malloc 2]\<rparr>) \<and>
   private_has_public
     \<lparr>oqs_s = Some (sample_engine\<lparr>rand := Some OQS_RAND_alg_default\<rparr>),
      pubkey = Some [0], privkey = Some [0, 0]\<rparr> \<and>
   fst (oqs_key_init sample_host 1000 KEY_TYPE_PRIVATE
          (sample_world [True, True, True, True, False])) = None \<and>
   freed_records (trace (snd (oqs_key_init sample_host 1000 KEY_TYPE_PRIVATE
          (sample_world [True, True, True, True, False])))) =
     [\<lparr>oqs_s = Some (sample_engine\<lparr>rand := Some OQS_RAND_alg_default\<rparr>),
       pubkey = Some [0], privkey = None\<rparr>] \<and>
   private_has_public
     \<lparr>oqs_s = Some (sample_engine\<lparr>rand := Some OQS_RAND_alg_default\<rparr>),
      pubkey = Some [0], privkey = None\<rparr> \<and>
   fst (pkey_oqs_keygen sample_host 1000 (empty_pkey 1000) (sample_world [])) = Inr 1 \<and>
   (\<exists>k'. ptr (fst (snd (pkey_oqs_keygen sample_host 1000 (empty_pkey 1000) (sample_world []))))
           = Some k' \<and> private_has_public k') \<and>
   fst (oqs_pub_decode sample_host (empty_pkey 1000)
          \<lparr>algor = None, public_key = Some [9]\<rparr> (sample_world [])) = Inr 1 \<and>
   (\<exists>k'. ptr (fst (snd (oqs_pub_decode sample_host (empty_pkey 1000)
          \<lparr>algor = None, public_key = Some [9]\<rparr> (sample_world [])))) = Some k' \<and>
         private_has_public k') \<and>
   fst (oqs_priv_decode sample_host (empty_pkey 1000)
          \<lparr>pkeyalg = None, pkey_octets = [4, 3, 7, 8, 9]\<rparr> (sample_world [])) = Inr 1 \<and>
   (\<exists>k'. ptr (fst (snd (oqs_priv_decode sample_host (empty_pkey 1000)
          \<lparr>pkeyalg = None, pkey_octets = [4, 3, 7, 8, 9]\<rparr> (sample_world [])))) = Some k' \<and>
         private_has_public k')"
proof -
  let ?L = sample_host and ?w = "sample_world []"
  let ?v = "sample_world [True, True, True, True, False]"
  let ?pk = "\<lparr>algor = None, public_key = Some [9 :: byte]\<rparr>"
  let ?p8 = "\<lparr>pkeyalg = None, pkey_octets = [4, 3, 7, 8, 9 :: byte]\<rparr>"
  let ?E = "sample_engine\<lparr>rand := Some OQS_RAND_alg_default\<rparr>"
  have init: "oqs_key_init ?L 1000 KEY_TYPE_PRIVATE ?w =
     (Some \<lparr>oqs_s = Some ?E, pubkey = Some [0], privkey = Some [0, 0]\<rparr>,
      ?w\<lparr>trace := [Ev_OPENSSL_malloc 1, Ev_OPENSSL_secure_malloc 2]\<rparr>)"
    by (simp add: oqs_key_init_def sample_defs collaborator_defs upt_small)
  have fail: "oqs_key_init ?L 1000 KEY_TYPE_PRIVATE ?v =
     (None,
      ?w\<lparr>trace := [Ev_OPENSSL_malloc 1, Ev_OQSerr 0 ERR_R_MALLOC_FAILURE] @
           teardown_calls \<lparr>oqs_s = Some ?E, pubkey = Some [0], privkey = None\<rparr>\<rparr>)"
    by (simp add: oqs_key_init_def sample_defs collaborator_defs upt_small
        oqs_pkey_ctx_free_def free_defs teardown_calls_def)
  obtain r1 p1 w1 where gen: "pkey_oqs_keygen ?L 1000 (empty_pkey 1000) ?w = (r1, p1, w1)"
    by (cases "pkey_oqs_keygen ?L 1000 (empty_pkey 1000) ?w")
  then have r1: "r1 = Inr 1"
    by (simp add: pkey_oqs_keygen_def oqs_key_init_def sample_defs collaborator_defs upt_small)
  obtain r2 p2 w2 where pub: "oqs_pub_decode ?L (empty_pkey 1000) ?pk ?w = (r2, p2, w2)"
    by (cases "oqs_pub_decode ?L (empty_pkey 1000) ?pk ?w")
  then have r2: "r2 = Inr 1"
    by (simp add: oqs_pub_decode_def oqs_key_init_def sample_defs collaborator_defs upt_small)
  obtain r3 p3 w3 where priv: "oqs_priv_decode ?L (empty_pkey 1000) ?p8 ?w = (r3, p3, w3)"
    by (cases "oqs_priv_decode ?L (empty_pkey 1000) ?p8 ?w")
  then have r3: "r3 = Inr 1"
    by (simp add: oqs_priv_decode_def oqs_key_init_def sample_defs collaborator_defs upt_small)
  note a = private_bytes_only_with_public_bytes
    [where L = ?L and nid = 1000 and keytype = KEY_TYPE_PRIVATE and w = ?w]
  note b = private_bytes_only_with_public_bytes
    [where L = ?L and nid = 1000 and keytype = KEY_TYPE_PRIVATE and w = ?v
       and pmeth_id = 1000 and pkey = "empty_pkey 1000" and pk = ?pk and ?p8.0 = ?p8]
  have 1: "private_has_public \<lparr>oqs_s = Some ?E, pubkey = Some [0], privkey = Some [0, 0]\<rparr>"
    using a [THEN conjunct1, rule_format, OF init] .
  have 2: "private_has_public \<lparr>oqs_s = Some ?E, pubkey = Some [0], privkey = None\<rparr>"
    using b [THEN conjunct2, THEN conjunct1, rule_format, OF fail]
    by (simp add: sample_world_def)
  have 3: "\<exists>k'. ptr p1 = Some k' \<and> private_has_public k'"
    using a [THEN conjunct2, THEN conjunct2, THEN conjunct1, rule_format,
        OF gen [unfolded r1]] .
  have 4: "\<exists>k'. ptr p2 = Some k' \<and> private_has_public k'"
    using a [THEN conjunct2, THEN conjunct2, THEN conjunct2, THEN conjunct1, rule_format,
        OF pub [unfolded r2]] .
  have 5: "\<exists>k'. ptr p3 = Some k' \<and> private_has_public k'"
    using a [THEN conjunct2, THEN conjunct2, THEN conjunct2, THEN conjunct2, rule_format,
        OF priv [unfolded r3]] .
  from init fail gen r1 pub r2 priv r3 1 2 3 4 5 show ?thesis
    by (simp add: sample_world_def)
qed

subsection \<open>Public-key decode\<close>

lemma oqs_pub_decode_params_present:
  assumes "params_present L (algor pk)"
  shows "\<exists>w'. oqs_pub_decode L pkey pk w = (Inr 0, pkey, w')"
  using assms
  by (auto simp: oqs_pub_decode_def Let_def split: prod.splits option.splits
      dest!: pub_get0_result)

lemma oqs_pub_decode_wrong_length:
  assumes "sig_alg L (get_oqs_alg_id L (pkey_id pkey)) = Some e0"
    and "public_key pk = Some p" and "length p \<noteq> pub_key_len e0"
  shows "\<exists>w'. oqs_pub_decode L pkey pk w = (Inr 0, pkey, w')"
  using assms
  by (auto simp: oqs_pub_decode_def Let_def split: prod.splits option.splits
      dest!: pub_get0_result oqs_key_init_Some)

lemma oqs_pub_decode_success:
  assumes get: "X509_PUBKEY_get0_param pk w = (Some (Some p, pklen, palg), w1)"
    and abs: "\<not> params_present L palg"
    and init: "oqs_key_init L (pkey_id pkey) KEY_TYPE_PUBLIC w1 = (Some k, w2)"
    and e: "oqs_s k = Some e" and len: "pklen = pub_key_len e"
  shows "privkey k = None \<and>
         oqs_pub_decode L pkey pk w = (Inr 1, pkey\<lparr>ptr := Some (k\<lparr>pubkey := Some p\<rparr>)\<rparr>, w2)"
proof -
  from init obtain e0 r pub where k: "oqs_s k = Some (e0\<lparr>rand := Some r\<rparr>)"
      "pubkey k = Some pub" "length pub = pub_key_len e0" "privkey k = None"
    by (auto dest!: oqs_key_init_Some)
  from get have "pklen = length p" by (auto dest!: pub_get0_result)
  with k e len have "memcpy pub p pklen = p" by (auto intro: memcpy_whole)
  with get abs init e len k show ?thesis
    by (simp add: oqs_pub_decode_def EVP_PKEY_assign_def)
qed

text \<open>
  C4. Public-key decode returns 0, leaving the host key object as it was, whenever the
  container's algorithm identifier carries parameters (any tag other than the absent
  marker), and whenever the length of the raw key bytes differs from the public-key length
  of the engine of this algorithm. When the container is read, its bytes are present, no
  parameters are present, the record is allocated and the length equals the engine's
  public-key length, decode returns 1 and hands the host key object that newly allocated
  record, which has no private bytes and whose public bytes are the raw bytes.
\<close>

theorem oqs_pub_decode_checks:
  "(params_present L (algor pk) \<longrightarrow> (\<exists>w'. oqs_pub_decode L pkey pk w = (Inr 0, pkey, w'))) \<and>
   (sig_alg L (get_oqs_alg_id L (pkey_id pkey)) = Some e0 \<longrightarrow> public_key pk = Some p \<longrightarrow>
      length p \<noteq> pub_key_len e0 \<longrightarrow> (\<exists>w'. oqs_pub_decode L pkey pk w = (Inr 0, pkey, w'))) \<and>
   (X509_PUBKEY_get0_param pk w = (Some (Some p, pklen, palg), w1) \<longrightarrow>
      \<not> params_present L palg \<longrightarrow>
      oqs_key_init L (pkey_id pkey) KEY_TYPE_PUBLIC w1 = (Some k, w2) \<longrightarrow>
      oqs_s k = Some e \<longrightarrow> pklen = pub_key_len e \<longrightarrow>
      privkey k = None \<and>
      oqs_pub_decode L pkey pk w = (Inr 1, pkey\<lparr>ptr := Some (k\<lparr>pubkey := Some p\<rparr>)\<rparr>, w2))"
  using oqs_pub_decode_params_present [of L pk pkey w]
    oqs_pub_decode_wrong_length [of L pkey e0 pk p w]
    oqs_pub_decode_success [of pk w p pklen palg w1 L pkey k w2 e]
  by blast

theorem oqs_pub_decode_checks_witness:
  "params_present sample_host (Some \<lparr>algorithm = 1000, ptype = 5\<rparr>) \<and>
   (\<exists>w'. oqs_pub_decode sample_host (empty_pkey 1000)
           \<lparr>algor = Some \<lparr>algorithm = 1000, ptype = 5\<rparr>, public_key = Some [9]\<rparr>
           (sample_world []) = (Inr 0, empty_pkey 1000, w')) \<and>
   sig_alg sample_host (get_oqs_alg_id sample_host 1000) = Some sample_engine \<and>
   length [9 :: byte, 9] \<noteq> pub_key_len sample_engine \<and>
   (\<exists>w'. oqs_pub_decode sample_host (empty_pkey 1000)
           \<lparr>algor = None, public_key = Some [9, 9]\<rparr> (sample_world [])
         = (Inr 0, empty_pkey 1000, w')) \<and>
   X509_PUBKEY_get0_param \<lparr>algor = None, public_key = Some [9]\<rparr> (sample_world []) =
     (Some (Some [9], 1, None), sample_world []) \<and>
   oqs_key_init sample_host 1000 KEY_TYPE_PUBLIC (sample_world []) =
     (Some \<lparr>oqs_s = Some (sample_engine\<lparr>rand := Some OQS_RAND_alg_default\<rparr>),
             pubkey = Some [0], privkey = None\<rparr>,
      (sample_world [])\<lparr>trace := [Ev_OPENSSL_malloc 1]\<rparr>) \<and>
   oqs_pub_decode sample_host (empty_pkey 1000)
       \<lparr>algor = None, public_key = Some [9]\<rparr> (sample_world []) =
     (Inr 1,
      \<lparr>pkey_id = 1000,
       ptr = Some \<lparr>oqs_s = Some (sample_engine\<lparr>rand := Some OQS_RAND_alg_default\<rparr>),
                   pubkey = Some [9], privkey = None\<rparr>\<rparr>,
      (sample_world [])\<lparr>trace := [Ev_OPENSSL_malloc 1]\<rparr>)"
  using oqs_pub_decode_checks
    [where L = sample_host and pkey = "empty_pkey 1000"
       and pk = "\<lparr>algor = Some \<lparr>algorithm = 1000, ptype = 5\<rparr>, public_key = Some [9]\<rparr>"
       and w = "sample_world []"]
   oqs_pub_decode_checks
    [where L = sample_host and pkey = "empty_pkey 1000"
       and pk = "\<lparr>algor = None, public_key = Some [9, 9]\<rparr>"
       and w = "sample_world []" and ?e0.0 = sample_engine and p = "[9, 9]"]
   oqs_pub_decode_checks
    [where L = sample_host and pkey = "empty_pkey 1000"
       and pk = "\<lparr>algor = None, public_key = Some [9]\<rparr>"
       and w = "sample_world []" and p = "[9]" and pklen = 1 and palg = None
       and ?w1.0 = "sample_world []"
       and k = "\<lparr>oqs_s = Some (sample_engine\<lparr>rand := Some OQS_RAND_alg_default\<rparr>),
                 pubkey = Some [0], privkey = None\<rparr>"
       and ?w2.0 = "(sample_world [])\<lparr>trace := [Ev_OPENSSL_malloc 1]\<rparr>"
       and e = "sample_engine\<lparr>rand := Some OQS_RAND_alg_default\<rparr>"]
  by (simp add: sample_defs collaborator_defs oqs_key_init_def upt_small)

subsection \<open>Private-key decode\<close>

lemma oqs_priv_decode_wrong_length:
  assumes "PKCS8_pkey_get0 p8 w = (Some (p0, plen0, palg), w1)"
    and "d2i_ASN1_OCTET_STRING p0 plen0 w1 = (oct, w2)"
    and "sig_alg L (get_oqs_alg_id L (pkey_id pkey)) = Some e0"
    and "payload_length oct \<noteq> priv_key_len e0 + pub_key_len e0"
  shows "\<exists>w'. oqs_priv_decode L pkey p8 w = (Inr 0, pkey, w')"
  using assms
  by (auto simp: oqs_priv_decode_def payload_length_def Let_def split: prod.splits option.splits
      dest!: oqs_key_init_Some)

lemma oqs_priv_decode_success:
  assumes get: "PKCS8_pkey_get0 p8 w = (Some (p0, plen0, palg), w1)"
    and d2i: "d2i_ASN1_OCTET_STRING p0 plen0 w1 = (Some d, w2)"
    and abs: "\<not> params_present L palg"
    and init: "oqs_key_init L (pkey_id pkey) KEY_TYPE_PRIVATE w2 = (Some k, w3)"
    and e: "oqs_s k = Some e" and len: "length d = priv_key_len e + pub_key_len e"
  shows "oqs_priv_decode L pkey p8 w =
           (Inr 1,
            pkey\<lparr>ptr := Some (k\<lparr>pubkey := Some (drop (priv_key_len e) d),
                                 privkey := Some (take (priv_key_len e) d)\<rparr>)\<rparr>,
            emit Ev_ASN1_OCTET_STRING_free w3)"
proof -
  from init obtain e0 r pub priv where k: "oqs_s k = Some (e0\<lparr>rand := Some r\<rparr>)"
      "pubkey k = Some pub" "length pub = pub_key_len e0"
      "privkey k = Some priv" "length priv = priv_key_len e0"
    by (auto dest!: oqs_key_init_Some)
  with e have sizes: "priv_key_len e = priv_key_len e0" "pub_key_len e = pub_key_len e0"
    by auto
  have a: "memcpy priv d (priv_key_len e) = take (priv_key_len e) d"
    using k sizes len by (simp add: memcpy_def)
  have b: "memcpy pub (drop (priv_key_len e) d) (pub_key_len e) = drop (priv_key_len e) d"
    using k sizes len by (simp add: memcpy_def)
  from get d2i abs init e len k a b show ?thesis
    by (simp add: oqs_priv_decode_def EVP_PKEY_assign_def ASN1_OCTET_STRING_free_def)
qed

text \<open>
  C5. Private-key decode returns 0, leaving the host key object as it was, whenever the
  length of the unwrapped octet string differs from the sum of the engine's private-key
  and public-key lengths. When the length matches (and the record was allocated), decode
  returns 1 and the record's private bytes are the first private-key-length bytes of the
  payload and its public bytes are the rest.
\<close>

theorem oqs_priv_decode_split:
  "(PKCS8_pkey_get0 p8 w = (Some (p0, plen0, palg), w1) \<longrightarrow>
      d2i_ASN1_OCTET_STRING p0 plen0 w1 = (oct, w2) \<longrightarrow>
      sig_alg L (get_oqs_alg_id L (pkey_id pkey)) = Some e0 \<longrightarrow>
      payload_length oct \<noteq> priv_key_len e0 + pub_key_len e0 \<longrightarrow>
      (\<exists>w'. oqs_priv_decode L pkey p8 w = (Inr 0, pkey, w'))) \<and>
   (PKCS8_pkey_get0 p8 w = (Some (p0, plen0, palg), w1) \<longrightarrow>
      d2i_ASN1_OCTET_STRING p0 plen0 w1 = (Some d, w2) \<longrightarrow>
      \<not> params_present L palg \<longrightarrow>
      oqs_key_init L (pkey_id pkey) KEY_TYPE_PRIVATE w2 = (Some k, w3) \<longrightarrow>
      oqs_s k = Some e \<longrightarrow> length d = priv_key_len e + pub_key_len e \<longrightarrow>
      oqs_priv_decode L pkey p8 w =
           (Inr 1,
            pkey\<lparr>ptr := Some (k\<lparr>pubkey := Some (drop (priv_key_len e) d),
                                 privkey := Some (take (priv_key_len e) d)\<rparr>)\<rparr>,
            emit Ev_ASN1_OCTET_STRING_free w3))"
  using oqs_priv_decode_wrong_length [of p8 w p0 plen0 palg w1 oct w2 L pkey e0]
    oqs_priv_decode_success [of p8 w p0 plen0 palg w1 d w2 L pkey k w3 e]
  by blast

theorem oqs_priv_decode_split_witness:
  "PKCS8_pkey_get0 \<lparr>pkeyalg = None, pkey_octets = [4, 2, 7, 8]\<rparr> (sample_world []) =
     (Some ([4, 2, 7, 8], 4, None), sample_world []) \<and>
   d2i_ASN1_OCTET_STRING [4, 2, 7, 8] 4 (sample_world []) = (Some [7, 8], sample_world []) \<and>
   sig_alg sample_host (get_oqs_alg_id sample_host 1000) = Some sample_engine \<and>
   payload_length (Some [7 :: byte, 8]) \<noteq> priv_key_len sample_engine + pub_key_len sample_engine \<and>
   (\<exists>w'. oqs_priv_decode sample_host (empty_pkey 1000)
           \<lparr>pkeyalg = None, pkey_octets = [4, 2, 7, 8]\<rparr> (sample_world [])
         = (Inr 0, empty_pkey 1000, w')) \<and>
   PKCS8_pkey_get0 \<lparr>pkeyalg = None, pkey_octets = [4, 3, 7, 8, 9]\<rparr> (sample_world []) =
     (Some ([4, 3, 7, 8, 9], 5, None), sample_world []) \<and>
   d2i_ASN1_OCTET_STRING [4, 3, 7, 8, 9] 5 (sample_world []) = (Some [7, 8, 9], sample_world []) \<and>
   oqs_key_init sample_host 1000 KEY_TYPE_PRIVATE (sample_world []) =
     (Some \<lparr>oqs_s = Some (sample_engine\<lparr>rand := Some OQS_RAND_alg_default\<rparr>),
             pubkey = Some [0], privkey = Some [0, 0]\<rparr>,
      (sample_world [])\<lparr>trace := [Ev_OPENSSL_malloc 1, Ev_OPENSSL_secure_malloc 2]\<rparr>) \<and>
   oqs_priv_decode sample_host (empty_pkey 1000)
       \<lparr>pkeyalg = None, pkey_octets = [4, 3, 7, 8, 9]\<rparr> (sample_world []) =
     (Inr 1,
      \<lparr>pkey_id = 1000,
       ptr = Some \<lparr>oqs_s = Some (sample_engine\<lparr>rand := Some OQS_RAND_alg_default\<rparr>),
                   pubkey = Some [9], privkey = Some [7, 8]\<rparr>\<rparr>,
      (sample_world [])\<lparr>trace := [Ev_OPENSSL_malloc 1, Ev_OPENSSL_secure_malloc 2,
                                    Ev_ASN1_OCTET_STRING_free]\<rparr>)"
  using oqs_priv_decode_split
    [where L = sample_host and pkey = "empty_pkey 1000"
       and ?p8.0 = "\<lparr>pkeyalg = None, pkey_octets = [4, 2, 7, 8]\<rparr>"
       and w = "sample_world []" and ?p0.0 = "[4, 2, 7, 8]" and ?plen0.0 = 4 and palg = None
       and ?w1.0 = "sample_world []" and oct = "Some [7, 8]" and ?w2.0 = "sample_world []"
       and ?e0.0 = sample_engine]
   oqs_priv_decode_split
    [where L = sample_host and pkey = "empty_pkey 1000"
       and ?p8.0 = "\<lparr>pkeyalg = None, pkey_octets = [4, 3, 7, 8, 9]\<rparr>"
       and w = "sample_world []" and ?p0.0 = "[4, 3, 7, 8, 9]" and ?plen0.0 = 5 and palg = None
       and ?w1.0 = "sample_world []" and d = "[7, 8, 9]" and ?w2.0 = "sample_world []"
       and k = "\<lparr>oqs_s = Some (sample_engine\<lparr>rand := Some OQS_RAND_alg_default\<rparr>),
                 pubkey = Some [0], privkey = Some [0, 0]\<rparr>"
       and ?w3.0 = "(sample_world [])\<lparr>trace := [Ev_OPENSSL_malloc 1, Ev_OPENSSL_secure_malloc 2]\<rparr>"
       and e = "sample_engine\<lparr>rand := Some OQS_RAND_alg_default\<rparr>"]
  by (simp add: sample_defs collaborator_defs oqs_key_init_def payload_length_def upt_small)

subsection \<open>A missing algorithm identifier structure\<close>

lemma oqs_pub_decode_null_algor:
  assumes pk: "algor pk = None" "public_key pk = Some p" and w: "outcomes w = []"
    and e0: "sig_alg L (get_oqs_alg_id L (pkey_id pkey)) = Some e0"
    and len: "length p = pub_key_len e0" "0 < pub_key_len e0"
  shows "\<exists>k w'. oqs_pub_decode L pkey pk w = (Inr 1, pkey\<lparr>ptr := Some k\<rparr>, w') \<and>
               pubkey k = Some p \<and> privkey k = None"
proof -
  from pk w have get: "X509_PUBKEY_get0_param pk w = (Some (Some p, length p, None), w)"
    by (simp add: X509_PUBKEY_get0_param_def attempt_no_outcomes)
  from oqs_key_init_no_failures [OF w e0 len(2), of KEY_TYPE_PUBLIC]
  obtain k w' where init: "oqs_key_init L (pkey_id pkey) KEY_TYPE_PUBLIC w = (Some k, w')"
    by auto
  from init e0 obtain r where k: "oqs_s k = Some (e0\<lparr>rand := Some r\<rparr>)"
    by (auto dest!: oqs_key_init_Some)
  have abs: "\<not> params_present L None"
    by (simp add: params_present_def)
  from oqs_pub_decode_success [OF get abs init k] len
  show ?thesis by auto
qed

lemma oqs_priv_decode_null_algor:
  assumes p8: "pkeyalg p8 = None" "der_parse_octet_string (pkey_octets p8) = Some d"
    and w: "outcomes w = []"
    and e0: "sig_alg L (get_oqs_alg_id L (pkey_id pkey)) = Some e0"
    and len: "length d = priv_key_len e0 + pub_key_len e0"
      "0 < priv_key_len e0" "0 < pub_key_len e0"
  shows "\<exists>k w'. oqs_priv_decode L pkey p8 w = (Inr 1, pkey\<lparr>ptr := Some k\<rparr>, w') \<and>
               privkey k = Some (take (priv_key_len e0) d) \<and>
               pubkey k = Some (drop (priv_key_len e0) d)"
proof -
  from w have get: "PKCS8_pkey_get0 p8 w =
      (Some (pkey_octets p8, length (pkey_octets p8), pkeyalg p8), w)"
    by (simp add: PKCS8_pkey_get0_def attempt_no_outcomes)
  from w p8 have d2i:
    "d2i_ASN1_OCTET_STRING (pkey_octets p8) (length (pkey_octets p8)) w = (Some d, w)"
    by (simp add: d2i_ASN1_OCTET_STRING_def attempt_no_outcomes)
  from oqs_key_init_no_failures [OF w e0 len(3), of KEY_TYPE_PRIVATE] len(2)
  obtain k w' where init: "oqs_key_init L (pkey_id pkey) KEY_TYPE_PRIVATE w = (Some k, w')"
    by auto
  from init e0 obtain r where k: "oqs_s k = Some (e0\<lparr>rand := Some r\<rparr>)"
    by (auto dest!: oqs_key_init_Some)
  have abs: "\<not> params_present L (pkeyalg p8)"
    using p8 by (simp add: params_present_def)
  from oqs_priv_decode_success [OF get d2i abs init k] len
  show ?thesis by auto
qed

text \<open>
  C10. In both decoders the parameters check is made only on an algorithm identifier
  structure that is there: with the structure missing (\<^verbatim>\<open>NULL\<close>) no parameters count
  as present, decoding does exactly what it does for a structure whose parameters are
  absent, and it proceeds: when no collaborator fails and the bytes have the engine's
  length, public-key decode of a container without the structure returns 1 with a record
  holding the raw bytes, and private-key decode returns 1 with a record holding the two
  parts of the payload.
\<close>

theorem absent_algor_skips_check:
  "\<not> params_present L None \<and>
   (ptype a = V_ASN1_UNDEF L \<longrightarrow>
      oqs_pub_decode L pkey (pk\<lparr>algor := None\<rparr>) w =
        oqs_pub_decode L pkey (pk\<lparr>algor := Some a\<rparr>) w \<and>
      oqs_priv_decode L pkey (p8\<lparr>pkeyalg := None\<rparr>) w =
        oqs_priv_decode L pkey (p8\<lparr>pkeyalg := Some a\<rparr>) w) \<and>
   (public_key pk = Some p \<longrightarrow> outcomes w = [] \<longrightarrow>
      sig_alg L (get_oqs_alg_id L (pkey_id pkey)) = Some e0 \<longrightarrow>
      length p = pub_key_len e0 \<longrightarrow> 0 < pub_key_len e0 \<longrightarrow>
      (\<exists>k w'. oqs_pub_decode L pkey (pk\<lparr>algor := None\<rparr>) w = (Inr 1, pkey\<lparr>ptr := Some k\<rparr>, w') \<and>
              pubkey k = Some p \<and> privkey k = None)) \<and>
   (der_parse_octet_string (pkey_octets p8) = Some d \<longrightarrow> outcomes w = [] \<longrightarrow>
      sig_alg L (get_oqs_alg_id L (pkey_id pkey)) = Some e0 \<longrightarrow>
      length d = priv_key_len e0 + pub_key_len e0 \<longrightarrow>
      0 < priv_key_len e0 \<longrightarrow> 0 < pub_key_len e0 \<longrightarrow>
      (\<exists>k w'. oqs_priv_decode L pkey (p8\<lparr>pkeyalg := None\<rparr>) w =
                (Inr 1, pkey\<lparr>ptr := Some k\<rparr>, w') \<and>
              privkey k = Some (take (priv_key_len e0) d) \<and>
              pubkey k = Some (drop (priv_key_len e0) d)))"
proof (intro conjI impI)
  show "\<not> params_present L None"
    by (simp add: params_present_def)
next
  assume "ptype a = V_ASN1_UNDEF L"
  then show "oqs_pub_decode L pkey (pk\<lparr>algor := None\<rparr>) w =
        oqs_pub_decode L pkey (pk\<lparr>algor := Some a\<rparr>) w"
    by (simp add: params_present_def oqs_pub_decode_def X509_PUBKEY_get0_param_def Let_def
        split: prod.splits option.splits)
next
  assume "ptype a = V_ASN1_UNDEF L"
  then show "oqs_priv_decode L pkey (p8\<lparr>pkeyalg := None\<rparr>) w =
        oqs_priv_decode L pkey (p8\<lparr>pkeyalg := Some a\<rparr>) w"
    by (simp add: params_present_def oqs_priv_decode_def PKCS8_pkey_get0_def Let_def
        split: prod.splits option.splits)
next
  assume "public_key pk = Some p" "outcomes w = []"
    "sig_alg L (get_oqs_alg_id L (pkey_id pkey)) = Some e0"
    "length p = pub_key_len e0" "0 < pub_key_len e0"
  then show "\<exists>k w'. oqs_pub_decode L pkey (pk\<lparr>algor := None\<rparr>) w =
                (Inr 1, pkey\<lparr>ptr := Some k\<rparr>, w') \<and>
              pubkey k = Some p \<and> privkey k = None"
    by (intro oqs_pub_decode_null_algor) simp_all
next
  assume "der_parse_octet_string (pkey_octets p8) = Some d" "outcomes w = []"
    "sig_alg L (get_oqs_alg_id L (pkey_id pkey)) = Some e0"
    "length d = priv_key_len e0 + pub_key_len e0"
    "0 < priv_key_len e0" "0 < pub_key_len e0"
  then show "\<exists>k w'. oqs_priv_decode L pkey (p8\<lparr>pkeyalg := None\<rparr>) w =
                (Inr 1, pkey\<lparr>ptr := Some k\<rparr>, w') \<and>
              privkey k = Some (take (priv_key_len e0) d) \<and>
              pubkey k = Some (drop (priv_key_len e0) d)"
    by (intro oqs_priv_decode_null_algor) simp_all
qed

theorem absent_algor_skips_check_witness:
  "ptype \<lparr>algorithm = 1000, ptype = - 1\<rparr> = V_ASN1_UNDEF sample_host \<and>
   \<not> params_present sample_host None \<and>
   oqs_pub_decode sample_host (empty_pkey 1000)
       \<lparr>algor = None, public_key = Some [9]\<rparr> (sample_world []) =
     oqs_pub_decode sample_host (empty_pkey 1000)
       \<lparr>algor = Some \<lparr>algorithm = 1000, ptype = - 1\<rparr>, public_key = Some [9]\<rparr>
       (sample_world []) \<and>
   oqs_priv_decode sample_host (empty_pkey 1000)
       \<lparr>pkeyalg = None, pkey_octets = [4, 3, 7, 8, 9]\<rparr> (sample_world []) =
     oqs_priv_decode sample_host (empty_pkey 1000)
       \<lparr>pkeyalg = Some \<lparr>algorithm = 1000, ptype = - 1\<rparr>, pkey_octets = [4, 3, 7, 8, 9]\<rparr>
       (sample_world []) \<and>
   outcomes (sample_world []) = [] \<and>
   sig_alg sample_host (get_oqs_alg_id sample_host (pkey_id (empty_pkey 1000)))
     = Some sample_engine \<and>
   length [9 :: byte] = pub_key_len sample_engine \<and>
   der_parse_octet_string [4, 3, 7, 8, 9] = Some [7, 8, 9] \<and>
   length [7 :: byte, 8, 9] = priv_key_len sample_engine + pub_key_len sample_engine \<and>
   (\<exists>k w'. oqs_pub_decode sample_host (empty_pkey 1000)
             \<lparr>algor = None, public_key = Some [9]\<rparr> (sample_world []) =
               (Inr 1, \<lparr>pkey_id = 1000, ptr = Some k\<rparr>, w') \<and>
           pubkey k = Some [9] \<and> privkey k = None) \<and>
   (\<exists>k w'. oqs_priv_decode sample_host (empty_pkey 1000)
             \<lparr>pkeyalg = None, pkey_octets = [4, 3, 7, 8, 9]\<rparr> (sample_world []) =
               (Inr 1, \<lparr>pkey_id = 1000, ptr = Some k\<rparr>, w') \<and>
           privkey k = Some [7, 8] \<and> pubkey k = Some [9])"
proof -
  let ?L = sample_host and ?w = "sample_world []" and ?P = "empty_pkey 1000"
  let ?a = "\<lparr>algorithm = 1000, ptype = - 1\<rparr>"
  let ?pk = "\<lparr>algor = None, public_key = Some [9 :: byte]\<rparr>"
  let ?p8 = "\<lparr>pkeyalg = None, pkey_octets = [4, 3, 7, 8, 9 :: byte]\<rparr>"
  note T = absent_algor_skips_check [where L = ?L and pkey = ?P and pk = ?pk and ?p8.0 = ?p8
      and w = ?w and a = ?a and p = "[9]" and d = "[7, 8, 9]" and ?e0.0 = sample_engine]
  have u: "ptype ?a = V_ASN1_UNDEF ?L"
    by (simp add: sample_host_def)
  have ow: "outcomes ?w = []"
    by (simp add: sample_world_def)
  have e: "sig_alg ?L (get_oqs_alg_id ?L (pkey_id ?P)) = Some sample_engine"
    by (simp add: sample_host_def get_oqs_alg_id_def empty_pkey_def)
  have lp: "length [9 :: byte] = pub_key_len sample_engine"
    and ld: "length [7 :: byte, 8, 9] = priv_key_len sample_engine + pub_key_len sample_engine"
    and pos: "0 < priv_key_len sample_engine" "0 < pub_key_len sample_engine"
    by (simp_all add: sample_engine_def)
  have parse: "der_parse_octet_string (pkey_octets ?p8) = Some [7, 8, 9]"
    by (simp add: der_parse_octet_string_def)
  have pkp: "public_key ?pk = Some [9]"
    by simp
  have 1: "\<not> params_present ?L None"
    using T [THEN conjunct1] .
  have 2: "oqs_pub_decode ?L ?P (?pk\<lparr>algor := None\<rparr>) ?w =
             oqs_pub_decode ?L ?P (?pk\<lparr>algor := Some ?a\<rparr>) ?w \<and>
           oqs_priv_decode ?L ?P (?p8\<lparr>pkeyalg := None\<rparr>) ?w =
             oqs_priv_decode ?L ?P (?p8\<lparr>pkeyalg := Some ?a\<rparr>) ?w"
    using T [THEN conjunct2, THEN conjunct1, rule_format, OF u] .
  have 3: "\<exists>k w'. oqs_pub_decode ?L ?P (?pk\<lparr>algor := None\<rparr>) ?w =
               (Inr 1, ?P\<lparr>ptr := Some k\<rparr>, w') \<and> pubkey k = Some [9] \<and> privkey k = None"
    using T [THEN conjunct2, THEN conjunct2, THEN conjunct1, rule_format,
        OF pkp ow e lp pos(2)] .
  have 4: "\<exists>k w'. oqs_priv_decode ?L ?P (?p8\<lparr>pkeyalg := None\<rparr>) ?w =
               (Inr 1, ?P\<lparr>ptr := Some k\<rparr>, w') \<and>
             privkey k = Some (take (priv_key_len sample_engine) [7, 8, 9]) \<and>
             pubkey k = Some (drop (priv_key_len sample_engine) [7, 8, 9])"
    using T [THEN conjunct2, THEN conjunct2, THEN conjunct2, rule_format,
        OF parse ow e ld pos] .
  from u 1 2 3 4 ow e lp ld parse show ?thesis
    by (simp add: empty_pkey_def sample_engine_def)
qed

subsection \<open>Private-key encode, and the round trip\<close>

lemma valid_private_recordD:
  assumes "valid_private_record L nid k priv pub"
  obtains e0 e where "sig_alg L (get_oqs_alg_id L nid) = Some e0" "oqs_s k = Some e"
    "priv_key_len e = priv_key_len e0" "pub_key_len e = pub_key_len e0"
    "privkey k = Some priv" "pubkey k = Some pub"
    "length priv = priv_key_len e0" "length pub = pub_key_len e0"
    "0 < priv_key_len e0" "0 < pub_key_len e0" "priv_key_len e0 + pub_key_len e0 < 2 ^ 31"
  using assms by (auto simp: valid_private_record_def split: option.splits)

lemma oqs_priv_encode_container:
  assumes v: "valid_private_record L (pkey_id pkey) k priv pub" and k: "ptr pkey = Some k"
    and enc: "oqs_priv_encode L p8 pkey w = (Inr 1, p8', w')"
  shows "pkey_octets p8' = der_octet_string (priv @ pub) \<and>
         pkeyalg p8' = Some \<lparr>algorithm = pkey_id pkey, ptype = V_ASN1_UNDEF L\<rparr>"
proof -
  from v obtain e0 :: OQS_SIG and e :: OQS_SIG where e: "oqs_s k = Some e"
    "priv_key_len e = priv_key_len e0" "pub_key_len e = pub_key_len e0"
    "privkey k = Some priv" "pubkey k = Some pub"
    "length priv = priv_key_len e0" "length pub = pub_key_len e0"
    by (auto elim: valid_private_recordD)
  have buf: "length buf0 = priv_key_len e0 + pub_key_len e0 \<Longrightarrow>
      memcpy_at (memcpy buf0 priv (priv_key_len e0)) (priv_key_len e0) pub (pub_key_len e0)
        = priv @ pub" for buf0
    using e by (simp add: memcpy_at_def memcpy_def)
  from enc k e buf show ?thesis
    by (auto simp: oqs_priv_encode_def Let_def split: prod.splits option.splits
        dest!: secure_malloc_Some i2d_result p8_set0_result)
qed

lemma oqs_priv_decode_of_encoding:
  assumes v: "valid_private_record L (pkey_id pkey) k priv pub"
    and oct: "pkey_octets p8' = der_octet_string (priv @ pub)"
    and dec: "oqs_priv_decode L pkey p8' w = (Inr 1, pkey', w')"
  shows "\<exists>k'. ptr pkey' = Some k' \<and> privkey k' = Some priv \<and> pubkey k' = Some pub"
proof -
  from v obtain e0 :: OQS_SIG where e0: "sig_alg L (get_oqs_alg_id L (pkey_id pkey)) = Some e0"
    "length priv = priv_key_len e0" "length pub = pub_key_len e0"
    "0 < priv_key_len e0" "priv_key_len e0 + pub_key_len e0 < 2 ^ 31"
    by (auto elim: valid_private_recordD)
  then have "length (priv @ pub) < 2 ^ 31" by simp
  then have parse: "der_parse_octet_string (der_octet_string (priv @ pub)) = Some (priv @ pub)"
    using der_parse_der_octet_string [of "priv @ pub" "[]"] by simp
  from dec oct parse e0 show ?thesis
    by (auto simp: oqs_priv_decode_def Let_def EVP_PKEY_assign_def memcpy_def
        d2i_ASN1_OCTET_STRING_def
        split: prod.splits option.splits if_splits
        dest!: p8_get0_result oqs_key_init_Some)
qed

lemma oqs_priv_encode_no_failures:
  assumes v: "valid_private_record L (pkey_id pkey) k priv pub" and k: "ptr pkey = Some k"
    and w: "outcomes w = []"
  shows "\<exists>p8' w'. oqs_priv_encode L p8 pkey w = (Inr 1, p8', w')"
proof -
  from v obtain e0 :: OQS_SIG and e :: OQS_SIG where e: "oqs_s k = Some e"
    "priv_key_len e = priv_key_len e0" "pub_key_len e = pub_key_len e0"
    "privkey k = Some priv" "pubkey k = Some pub" "0 < priv_key_len e0"
    by (auto elim: valid_private_recordD)
  with k w show ?thesis
    by (simp add: oqs_priv_encode_def OPENSSL_secure_malloc_def i2d_ASN1_OCTET_STRING_def
        PKCS8_pkey_set0_def attempt_no_outcomes Let_def)
qed

lemma oqs_priv_decode_no_failures:
  assumes v: "valid_private_record L (pkey_id pkey) k priv pub"
    and oct: "pkey_octets p8' = der_octet_string (priv @ pub)"
    and alg: "pkeyalg p8' = Some \<lparr>algorithm = a, ptype = V_ASN1_UNDEF L\<rparr>"
    and w: "outcomes w = []"
  shows "\<exists>pkey' w'. oqs_priv_decode L pkey p8' w = (Inr 1, pkey', w')"
proof -
  from v obtain e0 :: OQS_SIG where e0: "sig_alg L (get_oqs_alg_id L (pkey_id pkey)) = Some e0"
    "length priv = priv_key_len e0" "length pub = pub_key_len e0"
    "0 < priv_key_len e0" "0 < pub_key_len e0" "priv_key_len e0 + pub_key_len e0 < 2 ^ 31"
    by (auto elim: valid_private_recordD)
  then have "length (priv @ pub) < 2 ^ 31" by simp
  then have parse: "der_parse_octet_string (der_octet_string (priv @ pub)) = Some (priv @ pub)"
    using der_parse_der_octet_string [of "priv @ pub" "[]"] by simp
  from e0 w obtain k' w' where init:
    "oqs_key_init L (pkey_id pkey) KEY_TYPE_PRIVATE w = (Some k', w')"
    using oqs_key_init_no_failures [of w L "pkey_id pkey" e0 KEY_TYPE_PRIVATE] by auto
  from init e0 obtain r pub' priv' where k': "oqs_s k' = Some (e0\<lparr>rand := Some r\<rparr>)"
    "pubkey k' = Some pub'" "privkey k' = Some priv'"
    by (auto dest!: oqs_key_init_Some)
  from oct alg w parse init k' e0 show ?thesis
    by (simp add: oqs_priv_decode_def PKCS8_pkey_get0_def d2i_ASN1_OCTET_STRING_def
        attempt_no_outcomes params_present_def)
qed

text \<open>
  C3. For a valid private-capable record: whenever encoding it succeeds and decoding the
  container it produced succeeds, the decoded record's private bytes and public bytes are
  those of the original; and when no collaborator fails, both succeed.
\<close>

theorem private_key_round_trip:
  assumes v: "valid_private_record L (pkey_id pkey) k priv pub"
    and k: "ptr pkey = Some k"
    and id: "pkey_id pkey2 = pkey_id pkey"
  shows "(oqs_priv_encode L p8 pkey w = (Inr 1, p8', w') \<longrightarrow>
          oqs_priv_decode L pkey2 p8' v = (Inr 1, pkey2', v') \<longrightarrow>
          (\<exists>k'. ptr pkey2' = Some k' \<and> privkey k' = Some priv \<and> pubkey k' = Some pub)) \<and>
         (outcomes w = [] \<longrightarrow> outcomes v = [] \<longrightarrow>
          (\<exists>q w1 pkey3 v1.
             oqs_priv_encode L p8 pkey w = (Inr 1, q, w1) \<and>
             oqs_priv_decode L pkey2 q v = (Inr 1, pkey3, v1)))"
proof (intro conjI impI)
  assume enc: "oqs_priv_encode L p8 pkey w = (Inr 1, p8', w')"
    and dec: "oqs_priv_decode L pkey2 p8' v = (Inr 1, pkey2', v')"
  from v id have v2: "valid_private_record L (pkey_id pkey2) k priv pub" by simp
  from oqs_priv_encode_container [OF v k enc]
  have "pkey_octets p8' = der_octet_string (priv @ pub)" by simp
  from oqs_priv_decode_of_encoding [OF v2 this dec]
  show "\<exists>k'. ptr pkey2' = Some k' \<and> privkey k' = Some priv \<and> pubkey k' = Some pub" .
next
  assume w: "outcomes w = []" and vv: "outcomes v = []"
  from v id have v2: "valid_private_record L (pkey_id pkey2) k priv pub" by simp
  from oqs_priv_encode_no_failures [OF v k w] obtain q w1
    where enc: "oqs_priv_encode L p8 pkey w = (Inr 1, q, w1)" by blast
  from oqs_priv_encode_container [OF v k enc]
  have q: "pkey_octets q = der_octet_string (priv @ pub)"
    "pkeyalg q = Some \<lparr>algorithm = pkey_id pkey, ptype = V_ASN1_UNDEF L\<rparr>" by simp_all
  from oqs_priv_decode_no_failures [OF v2 q vv] obtain pkey3 v1
    where "oqs_priv_decode L pkey2 q v = (Inr 1, pkey3, v1)" by blast
  with enc show "\<exists>q w1 pkey3 v1.
             oqs_priv_encode L p8 pkey w = (Inr 1, q, w1) \<and>
             oqs_priv_decode L pkey2 q v = (Inr 1, pkey3, v1)" by blast
qed

theorem private_key_round_trip_witness:
  "valid_private_record sample_host (pkey_id sample_pkey) sample_key [7, 8] [9] \<and>
   ptr sample_pkey = Some sample_key \<and>
   pkey_id (empty_pkey 1000) = pkey_id sample_pkey \<and>
   oqs_priv_encode sample_host empty_p8 sample_pkey (sample_world []) =
     (Inr 1,
      \<lparr>pkeyalg = Some \<lparr>algorithm = 1000, ptype = - 1\<rparr>, pkey_octets = [4, 3, 7, 8, 9]\<rparr>,
      (sample_world [])\<lparr>trace := [Ev_OPENSSL_secure_malloc 3,
                                    Ev_OPENSSL_secure_clear_free [7, 8, 9] 3]\<rparr>) \<and>
   oqs_priv_decode sample_host (empty_pkey 1000)
       \<lparr>pkeyalg = Some \<lparr>algorithm = 1000, ptype = - 1\<rparr>, pkey_octets = [4, 3, 7, 8, 9]\<rparr>
       (sample_world []) =
     (Inr 1,
      \<lparr>pkey_id = 1000,
       ptr = Some \<lparr>oqs_s = Some (sample_engine\<lparr>rand := Some OQS_RAND_alg_default\<rparr>),
                   pubkey = Some [9], privkey = Some [7, 8]\<rparr>\<rparr>,
      (sample_world [])\<lparr>trace := [Ev_OPENSSL_malloc 1, Ev_OPENSSL_secure_malloc 2,
                                    Ev_ASN1_OCTET_STRING_free]\<rparr>) \<and>
   (\<exists>k'. ptr \<lparr>pkey_id = 1000,
              ptr = Some \<lparr>oqs_s = Some (sample_engine\<lparr>rand := Some OQS_RAND_alg_default\<rparr>),
                          pubkey = Some [9], privkey = Some [7, 8]\<rparr>\<rparr> = Some k' \<and>
         privkey k' = Some [7, 8] \<and> pubkey k' = Some [9]) \<and>
   outcomes (sample_world []) = [] \<and>
   (\<exists>q w1 pkey3 v1.
      oqs_priv_encode sample_host empty_p8 sample_pkey (sample_world []) = (Inr 1, q, w1) \<and>
      oqs_priv_decode sample_host (empty_pkey 1000) q (sample_world []) = (Inr 1, pkey3, v1))"
proof -
  have v: "valid_private_record sample_host (pkey_id sample_pkey) sample_key [7, 8] [9]"
    by (simp add: valid_private_record_def sample_defs get_oqs_alg_id_def)
  have k: "ptr sample_pkey = Some sample_key"
    by (simp add: sample_pkey_def)
  have i: "pkey_id (empty_pkey 1000) = pkey_id sample_pkey"
    by (simp add: sample_pkey_def empty_pkey_def)
  have enc: "oqs_priv_encode sample_host empty_p8 sample_pkey (sample_world []) =
     (Inr 1,
      \<lparr>pkeyalg = Some \<lparr>algorithm = 1000, ptype = - 1\<rparr>, pkey_octets = [4, 3, 7, 8, 9]\<rparr>,
      (sample_world [])\<lparr>trace := [Ev_OPENSSL_secure_malloc 3,
                                    Ev_OPENSSL_secure_clear_free [7, 8, 9] 3]\<rparr>)"
    by (simp add: oqs_priv_encode_def sample_defs collaborator_defs free_defs upt_small Let_def)
  have dec: "oqs_priv_decode sample_host (empty_pkey 1000)
       \<lparr>pkeyalg = Some \<lparr>algorithm = 1000, ptype = - 1\<rparr>, pkey_octets = [4, 3, 7, 8, 9]\<rparr>
       (sample_world []) =
     (Inr 1,
      \<lparr>pkey_id = 1000,
       ptr = Some \<lparr>oqs_s = Some (sample_engine\<lparr>rand := Some OQS_RAND_alg_default\<rparr>),
                   pubkey = Some [9], privkey = Some [7, 8]\<rparr>\<rparr>,
      (sample_world [])\<lparr>trace := [Ev_OPENSSL_malloc 1, Ev_OPENSSL_secure_malloc 2,
                                    Ev_ASN1_OCTET_STRING_free]\<rparr>)"
    by (simp add: oqs_priv_decode_def oqs_key_init_def sample_defs collaborator_defs upt_small)
  have w: "outcomes (sample_world []) = []"
    by (simp add: sample_world_def)
  note rt = private_key_round_trip [OF v k i, where ?p8.0 = empty_p8 and w = "sample_world []"
      and v = "sample_world []"]
  from rt [THEN conjunct1, rule_format, OF enc dec] rt [THEN conjunct2, rule_format, OF w w]
    v k i enc dec w
  show ?thesis by blast
qed

subsection \<open>Error reports on failing paths\<close>










text \<open>
  The size query returns the engine's field as a C \<^verbatim>\<open>int\<close>: a maximum signature
  length of \<open>2 ^ 31\<close> comes back negative.
\<close>

lemma oqs_size_wraps:
  "oqs_size
     \<lparr>pkey_id = 1000,
      ptr = Some (sample_key\<lparr>oqs_s := Some (sample_engine\<lparr>max_sig_len := 2147483648\<rparr>)\<rparr>)\<rparr> w
     = (- 2147483648, w)"
  by (simp add: oqs_size_def c_int_def sample_key_def)















subsection \<open>The size query of the sign operation\<close>

text \<open>
  C8 (amended). For every private-capable record, the sign operation called with the
  signature output buffer \<^verbatim>\<open>NULL\<close> returns 1 and reports the engine's maximum
  signature length, whatever the message pointer is, and leaves the world as it was: the
  engine's sign operation is not called.
\<close>

theorem size_query_does_not_sign:
  assumes "oqs_s k = Some e" and "privkey k = Some priv"
  shows "pkey_oqs_digestsign (Some k) None siglen tbs tbslen w = (1, None, max_sig_len e, w)"
  using assms by (simp add: pkey_oqs_digestsign_def)

theorem size_query_does_not_sign_witness:
  "oqs_s sample_key = Some (sample_engine\<lparr>rand := Some OQS_RAND_alg_default\<rparr>) \<and>
   privkey sample_key = Some [7, 8] \<and>
   pkey_oqs_digestsign (Some sample_key) None 0 (Some [1]) 1 (sample_world []) =
     (1, None, 3, sample_world [])"
  using size_query_does_not_sign
    [where k = sample_key and e = "sample_engine\<lparr>rand := Some OQS_RAND_alg_default\<rparr>"
       and priv = "[7, 8]" and siglen = 0 and tbs = "Some [1]" and tbslen = 1
       and w = "sample_world []"]
  by (simp add: sample_key_def sample_engine_def)

text \<open>
  The claim as stated names the message pointer as the sentinel. With the message
  pointer \<^verbatim>\<open>NULL\<close> and a signature buffer given, the sample record's sign operation
  returns 0 when \<^verbatim>\<open>*siglen\<close> is too small, and calls the engine otherwise.
\<close>

theorem size_query_sentinel_counterexample:
  "pkey_oqs_digestsign (Some sample_key) (Some [0, 0, 0]) 0 None 0 (sample_world []) =
     (0, Some [0, 0, 0], 0, (sample_world [])\<lparr>trace := [Ev_OQSerr 0 ERR_R_FATAL]\<rparr>) \<and>
   pkey_oqs_digestsign (Some sample_key) (Some [0, 0, 0]) 3 None 0 (sample_world []) =
     (1, Some [7, 8, 0], 2, (sample_world [])\<lparr>trace := [Ev_OQS_SIG_sign]\<rparr>)"
  by (simp add: pkey_oqs_digestsign_def sample_defs collaborator_defs)

subsection \<open>The intermediate buffer of private-key encode\<close>

text \<open>
  Whenever \<^verbatim>\<open>oqs_priv_encode\<close> gets its buffer and the octet-string encoding of it
  succeeds, the buffer holds the private bytes followed by the public bytes, comes from
  \<^verbatim>\<open>OPENSSL_secure_malloc\<close>, and is erased and freed before the function returns.
\<close>

lemma oqs_priv_encode_erases_after_encoding:
  assumes v: "valid_private_record L (pkey_id pkey) k priv pub" and k: "ptr pkey = Some k"
    and m: "OPENSSL_secure_malloc (length priv + length pub) w = (Some buf0, w1)"
    and i: "i2d_ASN1_OCTET_STRING (priv @ pub) (length priv + length pub) w1 = (Some penc, w2)"
    and r: "oqs_priv_encode L p8 pkey w = (ret, p8', w')"
  shows "Ev_OPENSSL_secure_malloc (length priv + length pub) \<in> set (trace w') \<and>
         Ev_OPENSSL_secure_clear_free (priv @ pub) (length priv + length pub) \<in> set (trace w')"
proof -
  from v obtain e0 :: OQS_SIG and e :: OQS_SIG where e: "oqs_s k = Some e"
    "priv_key_len e = priv_key_len e0" "pub_key_len e = pub_key_len e0"
    "privkey k = Some priv" "pubkey k = Some pub"
    "length priv = priv_key_len e0" "length pub = pub_key_len e0"
    by (auto elim: valid_private_recordD)
  from m have buf0: "length buf0 = priv_key_len e0 + pub_key_len e0"
    and t1: "trace w1 = trace w @ [Ev_OPENSSL_secure_malloc (length priv + length pub)]"
    using e by (auto dest!: secure_malloc_Some)
  from buf0 e have buf:
    "memcpy_at (memcpy buf0 priv (priv_key_len e0)) (priv_key_len e0) pub (pub_key_len e0)
       = priv @ pub"
    by (simp add: memcpy_at_def memcpy_def)
  from i have t2: "trace w2 = trace w1"
    by (auto simp: i2d_ASN1_OCTET_STRING_def split: prod.splits dest!: attempt_cases)
  obtain q w3 where s: "PKCS8_pkey_set0 p8 (pkey_id pkey) (V_ASN1_UNDEF L) penc (length penc) w2
      = (q, w3)"
    by (cases "PKCS8_pkey_set0 p8 (pkey_id pkey) (V_ASN1_UNDEF L) penc (length penc) w2")
  then have t3: "trace w3 = trace w2"
    by (auto simp: PKCS8_pkey_set0_def split: prod.splits dest!: attempt_cases)
  from r k e m i s buf t1 t2 t3 show ?thesis
    by (cases q) (auto simp: oqs_priv_encode_def Let_def free_defs)
qed

text \<open>
  C1. The claim fails on the path where the octet-string encoding of the buffer fails:
  at the sample record, with the buffer allocation succeeding and
  \<^verbatim>\<open>i2d_ASN1_OCTET_STRING\<close> failing, \<^verbatim>\<open>oqs_priv_encode\<close> returns 0 having called
  \<^verbatim>\<open>OPENSSL_secure_malloc\<close> and \<^verbatim>\<open>OQSerr\<close> and nothing else: the buffer is neither
  erased nor freed.
\<close>

theorem oqs_priv_encode_leaks_when_i2d_fails:
  "oqs_priv_encode sample_host empty_p8 sample_pkey (sample_world [True, False]) =
     (Inr 0, empty_p8,
      (sample_world [])
        \<lparr>trace := [Ev_OPENSSL_secure_malloc 3, Ev_OQSerr 0 ERR_R_MALLOC_FAILURE]\<rparr>)"
  by (simp add: oqs_priv_encode_def sample_host_def sample_pkey_def sample_key_def
      sample_engine_def sample_world_def OPENSSL_secure_malloc_def attempt_def
      i2d_ASN1_OCTET_STRING_def OQSerr_def emit_def Let_def)

end
